theory Spec2Isabelle
  imports Main "HOL-Library.Word"
begin

section \<open>Data model (types.ts, constants.ts)\<close>

text \<open>
  \<^verbatim>\<open>interface ImageFile { base64: string; mimeType: string; name: string; }\<close>
\<close>

record ImageFile =
  base64 :: string
  mimeType :: string
  name :: string

datatype OutputType = TypeCreate | TypeEnhance

text \<open>
  \<^verbatim>\<open>interface GeneratedOutput\<close>. The optional and nullable fields are options; the
  fields carry the prefix \<open>g_\<close> because the application state has an \<open>inputImage\<close> and
  an \<open>overlayImage\<close> of its own.
\<close>

record GeneratedOutput =
  g_type :: OutputType
  g_prompt :: string
  g_style :: string
  g_resolution :: "string option"
  g_inputImage :: "string option"
  g_outputImage :: string
  g_overlayImage :: "string option"
  g_maskImage :: "string option"
  g_intensity :: "nat option"

datatype View = ViewCreate | ViewEnhance

datatype AiProvider = Gemini | OpenAI

definition MAX_UNDO_STEPS :: nat where
  "MAX_UNDO_STEPS = 10"

section \<open>Session state and its handlers (App.tsx)\<close>

text \<open>
  The \<^verbatim>\<open>useState\<close> slots of \<^verbatim>\<open>App\<close> that the editing handlers read and write.
  A handler is a function from the state of the render it closes over to the state
  after its updates have been applied. \<open>currentUser\<close> is the signed-in user, by
  identifier.
\<close>

record AppState =
  view :: View
  aiProvider :: AiProvider
  inputImage :: "ImageFile option"
  overlayImage :: "ImageFile option"
  undoHistory :: "ImageFile list"
  generatedOutput :: "GeneratedOutput option"
  isResultModalOpen :: bool
  isLoading :: bool
  error :: "string option"
  currentUser :: "string option"

definition initialState :: AppState where
  "initialState =
     \<lparr>view = ViewCreate, aiProvider = Gemini, inputImage = None, overlayImage = None,
      undoHistory = [], generatedOutput = None, isResultModalOpen = False,
      isLoading = False, error = None, currentUser = None\<rparr>"

text \<open>
  \<^verbatim>\<open>addImageToUndoHistory\<close>: the updater it passes to \<^verbatim>\<open>setUndoHistory\<close>, applied to
  the previous history. \<^verbatim>\<open>if (!image) return;\<close> is the \<open>None\<close> case.
\<close>

definition addImageToUndoHistory :: "ImageFile option \<Rightarrow> ImageFile list \<Rightarrow> ImageFile list" where
  "addImageToUndoHistory img prev =
     (case img of
        None \<Rightarrow> prev
      | Some i \<Rightarrow>
          (let newHistory = i # prev
           in if length newHistory > MAX_UNDO_STEPS
              then take MAX_UNDO_STEPS newHistory
              else newHistory))"

definition handleSetInputImage :: "ImageFile option \<Rightarrow> AppState \<Rightarrow> AppState" where
  "handleSetInputImage file s =
     s\<lparr>undoHistory := addImageToUndoHistory (inputImage s) (undoHistory s),
       inputImage := file,
       overlayImage := None\<rparr>"

definition handleUndo :: "AppState \<Rightarrow> AppState" where
  "handleUndo s =
     (case undoHistory s of
        [] \<Rightarrow> s
      | lastImage # rest \<Rightarrow>
          s\<lparr>inputImage := Some lastImage, undoHistory := rest, overlayImage := None\<rparr>)"

text \<open>
  \<^verbatim>\<open>if (generatedOutput && generatedOutput.outputImage)\<close>: an empty string is falsy in
  JavaScript, so the guard is that a result is stored and its output image is not empty.
\<close>

definition handleContinueEditing :: "AppState \<Rightarrow> AppState" where
  "handleContinueEditing s =
     (case generatedOutput s of
        None \<Rightarrow> s
      | Some g \<Rightarrow>
          if g_outputImage g \<noteq> []
          then s\<lparr>undoHistory := addImageToUndoHistory (inputImage s) (undoHistory s),
                 inputImage := Some \<lparr>base64 = g_outputImage g, mimeType = ''image/png'',
                                     name = ''edited-result.png''\<rparr>,
                 overlayImage := None,
                 view := ViewEnhance,
                 isResultModalOpen := False\<rparr>
          else s)"

definition handleSendToEnhance :: "AppState \<Rightarrow> AppState" where
  "handleSendToEnhance s =
     (case generatedOutput s of
        None \<Rightarrow> s
      | Some g \<Rightarrow>
          if g_type g = TypeCreate \<and> g_outputImage g \<noteq> []
          then s\<lparr>inputImage := Some \<lparr>base64 = g_outputImage g, mimeType = ''image/png'',
                                     name = ''generated-image.png''\<rparr>,
                 undoHistory := [],
                 overlayImage := None,
                 view := ViewEnhance,
                 isResultModalOpen := False\<rparr>
          else s)"

text \<open>
  The success callbacks of \<^verbatim>\<open>handleCreateGenerate\<close> and \<^verbatim>\<open>handleEnhanceProcess\<close>:
  the result is stored and the modal opened. \<open>baseImage\<close> is the base image that the
  edit was submitted with (\<^verbatim>\<open>handleEnhanceProcess\<close> returns at once without one).
  \<^verbatim>\<open>overlay?.base64 || null\<close> maps an absent overlay and an empty payload to \<^verbatim>\<open>null\<close>.
\<close>

definition orNull :: "string \<Rightarrow> string option" where
  "orNull str = (if str = [] then None else Some str)"

definition createSucceeded :: "string \<Rightarrow> string \<Rightarrow> string \<Rightarrow> string \<Rightarrow> AppState \<Rightarrow> AppState" where
  "createSucceeded prompt style resolution outputImage s =
     s\<lparr>generatedOutput := Some
         \<lparr>g_type = TypeCreate, g_prompt = prompt, g_style = style,
          g_resolution = Some resolution, g_inputImage = None, g_outputImage = outputImage,
          g_overlayImage = None, g_maskImage = None, g_intensity = None\<rparr>,
       isResultModalOpen := True\<rparr>"

definition enhanceSucceeded ::
  "ImageFile \<Rightarrow> string \<Rightarrow> string \<Rightarrow> nat \<Rightarrow> ImageFile option \<Rightarrow> ImageFile option \<Rightarrow> string
   \<Rightarrow> AppState \<Rightarrow> AppState" where
  "enhanceSucceeded baseImage prompt style intensity overlay maskImage outputImage s =
     s\<lparr>generatedOutput := Some
         \<lparr>g_type = TypeEnhance, g_prompt = prompt, g_style = style,
          g_resolution = None, g_inputImage = Some (base64 baseImage),
          g_outputImage = outputImage,
          g_overlayImage = (case overlay of None \<Rightarrow> None | Some ov \<Rightarrow> orNull (base64 ov)),
          g_maskImage = (case maskImage of None \<Rightarrow> None | Some m \<Rightarrow> orNull (base64 m)),
          g_intensity = Some intensity\<rparr>,
       isResultModalOpen := True\<rparr>"

text \<open>
  The user intents and completions that change the session state, and the state they
  lead to. \<open>SetInputImage\<close> is what the Enhance tab calls on upload, replacement and
  removal of the base image (\<^verbatim>\<open>setInputImage={handleSetInputImage}\<close>).
\<close>

datatype Event =
    SetInputImage "ImageFile option"
  | SetOverlayImage "ImageFile option"
  | Undo
  | ContinueEditing
  | SendToEnhance
  | CreateSucceeded string string string string
  | EnhanceSucceeded ImageFile string string nat "ImageFile option" "ImageFile option" string
  | SetView View
  | SetAiProvider AiProvider
  | SetResultModalOpen bool

fun step :: "AppState \<Rightarrow> Event \<Rightarrow> AppState" where
  "step s (SetInputImage file) = handleSetInputImage file s"
| "step s (SetOverlayImage file) = s\<lparr>overlayImage := file\<rparr>"
| "step s Undo = handleUndo s"
| "step s ContinueEditing = handleContinueEditing s"
| "step s SendToEnhance = handleSendToEnhance s"
| "step s (CreateSucceeded p st r out) = createSucceeded p st r out s"
| "step s (EnhanceSucceeded b p st i ov m out) = enhanceSucceeded b p st i ov m out s"
| "step s (SetView v) = s\<lparr>view := v\<rparr>"
| "step s (SetAiProvider p) = s\<lparr>aiProvider := p\<rparr>"
| "step s (SetResultModalOpen b) = s\<lparr>isResultModalOpen := b\<rparr>"

definition run :: "AppState \<Rightarrow> Event list \<Rightarrow> AppState" where
  "run s es = foldl step s es"

text \<open>\<open>pushAll h imgs\<close> pushes the assets of \<open>imgs\<close> onto \<open>h\<close>, the first of \<open>imgs\<close> first.\<close>

definition pushAll :: "ImageFile list \<Rightarrow> ImageFile list \<Rightarrow> ImageFile list" where
  "pushAll h imgs = foldl (\<lambda>acc img. addImageToUndoHistory (Some img) acc) h imgs"

section \<open>Retry with backoff (services/geminiService.ts, services/openaiService.ts)\<close>

text \<open>
  A thrown JavaScript error: an \<^verbatim>\<open>Error\<close> with its message, or one that the
  runtime raises (a \<^verbatim>\<open>TypeError\<close>, a \<^verbatim>\<open>SyntaxError\<close>, the \<^verbatim>\<open>InvalidCharacterError\<close>
  of \<^verbatim>\<open>atob\<close>).
\<close>

datatype error = Error string | TypeError | SyntaxError | InvalidCharacterError

text \<open>
  What \<^verbatim>\<open>withRetry\<close> does besides returning, in time order: an invocation of the
  wrapped operation, or a \<^verbatim>\<open>delay\<close> of so many milliseconds.
\<close>

datatype RetryEvent = Attempt | Wait nat

text \<open>
  The \<^verbatim>\<open>while\<close> loop of \<^verbatim>\<open>withRetry\<close>, entered with the current \<open>attempt\<close>. The
  operation \<open>fn\<close> acts on the outside world \<open>w\<close>: it returns a value (\<open>Inr\<close>) or
  throws (\<open>Inl\<close>), and leaves the world changed. The result is what the wrapper returns
  or throws, the world it leaves, and its events. \<open>exceeded\<close> is the message of the
  error after the loop, the only difference between the two services' copies.
\<close>

function withRetry_loop ::
  "string \<Rightarrow> ('w \<Rightarrow> (error + 'a) \<times> 'w) \<Rightarrow> nat \<Rightarrow> nat \<Rightarrow> nat \<Rightarrow> 'w
   \<Rightarrow> (error + 'a) \<times> 'w \<times> RetryEvent list" where
  "withRetry_loop exceeded fn retries initialDelay attempt w =
     (if attempt < retries
      then (case fn w of
              (Inr v, w') \<Rightarrow> (Inr v, w', [Attempt])
            | (Inl e, w') \<Rightarrow>
                (let attempt' = attempt + 1
                 in if attempt' \<ge> retries then (Inl e, w', [Attempt])
                    else (case withRetry_loop exceeded fn retries initialDelay attempt' w' of
                            (r, w'', events) \<Rightarrow>
                              (r, w'', Attempt # Wait (initialDelay * 2 ^ (attempt' - 1)) # events))))
      else (Inl (Error exceeded), w, []))"
  by pat_completeness auto
termination
  by (relation "measure (\<lambda>(exceeded, fn, retries, initialDelay, attempt, w). retries - attempt)")
     auto

declare withRetry_loop.simps [simp del]

definition withRetry ::
  "string \<Rightarrow> ('w \<Rightarrow> (error + 'a) \<times> 'w) \<Rightarrow> nat \<Rightarrow> nat \<Rightarrow> 'w
   \<Rightarrow> (error + 'a) \<times> 'w \<times> RetryEvent list" where
  "withRetry exceeded fn retries initialDelay w =
     withRetry_loop exceeded fn retries initialDelay 0 w"

text \<open>
  The two copies with the default parameters \<^verbatim>\<open>retries = 3, initialDelay = 1000\<close>, which
  every call site uses.
\<close>

definition gemini_withRetry ::
  "('w \<Rightarrow> (error + 'a) \<times> 'w) \<Rightarrow> 'w \<Rightarrow> (error + 'a) \<times> 'w \<times> RetryEvent list" where
  "gemini_withRetry fn w = withRetry ''Exceeded max retries'' fn 3 1000 w"

definition openai_withRetry ::
  "('w \<Rightarrow> (error + 'a) \<times> 'w) \<Rightarrow> 'w \<Rightarrow> (error + 'a) \<times> 'w \<times> RetryEvent list" where
  "openai_withRetry fn w = withRetry ''Exceeded max retries with OpenAI API.'' fn 3 1000 w"

section \<open>Values and strings of the platform\<close>

text \<open>
  A parsed JSON value, as \<^verbatim>\<open>JSON.parse\<close> returns it (numbers restricted to integers;
  an object as the list of its properties, each key once).
\<close>

datatype json =
    JNull
  | JBool bool
  | JNumber int
  | JString string
  | JArray "json list"
  | JObject "(string \<times> json) list"

text \<open>
  Reading a property of a value that is not \<^verbatim>\<open>null\<close>: \<open>None\<close> is \<^verbatim>\<open>undefined\<close>.
  Only an object has properties parsed from the text.
\<close>

fun property :: "json \<Rightarrow> string \<Rightarrow> json option" where
  "property (JObject kvs) k = map_of kvs k"
| "property _ k = None"

text \<open>
  \<^verbatim>\<open>String.prototype.trim\<close>. A \<open>char\<close> is a code unit below 256. Of the white space
  and line terminators of ECMAScript these are TAB, LF, VT, FF, CR, SP and NBSP
  (U+00A0); the others (U+FEFF, U+1680, U+2000 to U+200A, U+2028, U+2029, U+202F,
  U+205F, U+3000) lie above 255.
\<close>

definition isWhiteSpace :: "char \<Rightarrow> bool" where
  "isWhiteSpace c =
     (c \<in> set [CHR 0x09, CHR 0x0A, CHR 0x0B, CHR 0x0C, CHR 0x0D, CHR '' '', CHR 0xA0])"

definition trim :: "string \<Rightarrow> string" where
  "trim str = rev (dropWhile isWhiteSpace (rev (dropWhile isWhiteSpace str)))"

definition nl :: string where
  "nl = [CHR 0x0A]"

text \<open>A non-negative integer in a template literal: its decimal digits.\<close>

definition digitChar :: "nat \<Rightarrow> char" where
  "digitChar d = ''0123456789'' ! d"

function showNat :: "nat \<Rightarrow> string" where
  "showNat n = (if n < 10 then [digitChar n] else showNat (n div 10) @ [digitChar (n mod 10)])"
  by pat_completeness auto
termination
  by (relation "measure (\<lambda>n. n)") auto

declare showNat.simps [simp del]

text \<open>
  \<^verbatim>\<open>process.env.API_KEY || ""\<close> and \<^verbatim>\<open>getOpenAiApiKey\<close>: the key, or the empty
  string when the variable is unset or empty. \<open>env\<close> is the value of the variable.
\<close>

definition gemini_API_KEY :: "string option \<Rightarrow> string" where
  "gemini_API_KEY env = (case env of None \<Rightarrow> [] | Some k \<Rightarrow> if k = [] then [] else k)"

definition getOpenAiApiKey :: "string option \<Rightarrow> string" where
  "getOpenAiApiKey env = (case env of None \<Rightarrow> [] | Some k \<Rightarrow> if k = [] then [] else k)"

section \<open>The Gemini service (services/geminiService.ts)\<close>

text \<open>A \<^verbatim>\<open>Part\<close> of a multimodal message: a text, or inline data with its MIME type.\<close>

datatype Part = TextPart string | InlineData string string

definition fileToGenerativePart :: "ImageFile \<Rightarrow> Part" where
  "fileToGenerativePart f = InlineData (base64 f) (mimeType f)"

datatype GeminiContents = PromptText string | Parts "Part list"

text \<open>
  The \<^verbatim>\<open>config\<close> of a call: JSON output under the schema of an object with a required
  array of strings \<^verbatim>\<open>suggestions\<close>, or the image response modality.
\<close>

datatype GeminiConfig = JsonSuggestions | ImageModality

record GeminiRequest =
  model :: string
  contents :: GeminiContents
  config :: GeminiConfig

text \<open>
  What the service reads of a response: \<^verbatim>\<open>response.text\<close> (\<open>None\<close> when the response
  has no text and the property is \<^verbatim>\<open>undefined\<close>) and
  \<^verbatim>\<open>response.candidates?.[0]?.content?.parts?.[0]\<close> (\<open>None\<close> when a link of the chain is
  missing).
\<close>

record GeminiResponse =
  responseText :: "string option"
  firstPart :: "Part option"

text \<open>
  \<^verbatim>\<open>ai.models.generateContent\<close> of the client made with \<^verbatim>\<open>apiKey: API_KEY\<close>: a call over
  the network, given the client's key and the request. It acts on the world \<open>'w\<close>.
\<close>

type_synonym 'w GenerateContent =
  "string \<Rightarrow> GeminiRequest \<Rightarrow> 'w \<Rightarrow> (error + GeminiResponse) \<times> 'w"

definition styleInstruction :: "string \<Rightarrow> string" where
  \<open>styleInstruction styleContext =
     (if styleContext = ''No predefined style''
      then ''Based on the user's prompt, feel free to suggest appropriate and creative architectural styles.''
      else ''Incorporate the style: "'' @ styleContext @ ''".'')\<close>

definition gemini_fullPrompt :: "string \<Rightarrow> string \<Rightarrow> string" where
  \<open>gemini_fullPrompt prompt styleContext =
     ''You are an expert architectural visualization assistant. Your task is to refine a user's prompt to be more descriptive and evocative for an AI image generator.''
     @ nl @ styleInstruction styleContext
     @ nl @ ''User prompt: "'' @ prompt @ ''"''
     @ nl @ ''Please provide 3 distinct, creative, and detailed suggestions.''\<close>

text \<open>
  The \<^verbatim>\<open>try\<close> block of \<^verbatim>\<open>refineTextPrompt\<close> on a response text \<open>txt\<close>: what it returns, or
  what it throws into the \<^verbatim>\<open>catch\<close>. \<open>jsonParse\<close> is \<^verbatim>\<open>JSON.parse\<close>, \<open>None\<close> for a
  \<^verbatim>\<open>SyntaxError\<close>. Reading \<^verbatim>\<open>.suggestions\<close> of \<^verbatim>\<open>null\<close> is a \<^verbatim>\<open>TypeError\<close>. The
  condition holds of a non-empty array only; \<^verbatim>\<open>slice(0, 3)\<close> keeps its first three
  elements, whatever they are.
\<close>

definition trySuggestions :: "(string \<Rightarrow> json option) \<Rightarrow> string \<Rightarrow> error + json list" where
  "trySuggestions jsonParse txt =
     (case jsonParse txt of
        None \<Rightarrow> Inl SyntaxError
      | Some JNull \<Rightarrow> Inl TypeError
      | Some jsonResponse \<Rightarrow>
          (case property jsonResponse ''suggestions'' of
             Some (JArray suggestions) \<Rightarrow>
               if length suggestions > 0 then Inr (take 3 suggestions)
               else Inr [JString (trim txt)]
           | _ \<Rightarrow> Inr [JString (trim txt)]))"

text \<open>
  The \<^verbatim>\<open>try\<close>/\<^verbatim>\<open>catch\<close> of the Gemini \<^verbatim>\<open>refineTextPrompt\<close>. \<^verbatim>\<open>JSON.parse(undefined)\<close> is
  a \<^verbatim>\<open>SyntaxError\<close>; the handler evaluates \<^verbatim>\<open>response.text.trim()\<close>, a \<^verbatim>\<open>TypeError\<close>
  when there is no text.
\<close>

definition gemini_parseSuggestions :: "(string \<Rightarrow> json option) \<Rightarrow> GeminiResponse \<Rightarrow> error + json list" where
  "gemini_parseSuggestions jsonParse response =
     (case (case responseText response of
              None \<Rightarrow> Inl SyntaxError
            | Some txt \<Rightarrow> trySuggestions jsonParse txt) of
        Inr result \<Rightarrow> Inr result
      | Inl e \<Rightarrow>
          (case responseText response of
             None \<Rightarrow> Inl TypeError
           | Some txt \<Rightarrow> Inr [JString (trim txt)]))"

definition gemini_refineRequest :: "string \<Rightarrow> string \<Rightarrow> GeminiRequest" where
  "gemini_refineRequest prompt styleContext =
     \<lparr>model = ''gemini-2.5-flash'',
      contents = PromptText (gemini_fullPrompt prompt styleContext),
      config = JsonSuggestions\<rparr>"

definition gemini_refineTextPrompt ::
  "(string \<Rightarrow> json option) \<Rightarrow> 'w GenerateContent \<Rightarrow> string option \<Rightarrow> string \<Rightarrow> string \<Rightarrow> 'w
   \<Rightarrow> (error + json list) \<times> 'w \<times> RetryEvent list" where
  "gemini_refineTextPrompt jsonParse generateContent env prompt styleContext w =
     (case gemini_withRetry
             (generateContent (gemini_API_KEY env) (gemini_refineRequest prompt styleContext)) w of
        (Inl e, w', events) \<Rightarrow> (Inl e, w', events)
      | (Inr response, w', events) \<Rightarrow> (gemini_parseSuggestions jsonParse response, w', events))"

text \<open>The check of the first part that both image operations end with.\<close>

definition gemini_imageData :: "GeminiResponse \<Rightarrow> error + string" where
  "gemini_imageData response =
     (case firstPart response of
        Some (InlineData d m) \<Rightarrow> Inr d
      | _ \<Rightarrow> Inl (Error ''No image data received from API. The request may have been blocked due to safety policies.''))"



text \<open>
  The \<^verbatim>\<open>parts\<close> that \<^verbatim>\<open>editImage\<close> builds. \<^verbatim>\<open>if (intensity)\<close> is false for a missing
  intensity and for 0.
\<close>

definition gemini_maskedIntro :: string where
  "gemini_maskedIntro =
     ''You are a precise in-painting AI assistant. Your task is to edit an image only within a specified area defined by a mask.''
     @ nl @ ''- You will be given a base image and a corresponding mask image.''
     @ nl @ ''- The mask image is black and white. You MUST ONLY edit the pixels in the base image that correspond to the WHITE areas in the mask.''
     @ nl @ ''- The BLACK areas of the mask indicate parts of the image that MUST NOT be changed under any circumstances.''
     @ nl @ ''- You will then be given a text prompt describing the change to make.''
     @ nl @ nl @ ''Here is the base image:''"

definition intensityQualifier :: "nat option \<Rightarrow> string" where
  "intensityQualifier intensity =
     (case intensity of
        None \<Rightarrow> []
      | Some n \<Rightarrow>
          if n = 0 then []
          else '' The modification intensity should be around '' @ showNat n @ ''%.'')"

definition gemini_editParts ::
  "ImageFile \<Rightarrow> string \<Rightarrow> ImageFile option \<Rightarrow> nat option \<Rightarrow> ImageFile option \<Rightarrow> Part list" where
  \<open>gemini_editParts baseImage prompt overlay intensity maskImage =
     (case maskImage of
        Some m \<Rightarrow>
          [TextPart gemini_maskedIntro,
           fileToGenerativePart baseImage,
           TextPart ''And here is the mask. Remember: ONLY edit the white areas.'',
           fileToGenerativePart m]
          @ (case overlay of
               None \<Rightarrow> []
             | Some ov \<Rightarrow>
                 [TextPart ''You are also provided with an overlay image. Integrate this object into the white masked area according to the prompt.'',
                  fileToGenerativePart ov])
          @ [TextPart (''Now, apply the following instruction to the white masked area of the base image: "''
                       @ prompt @ ''"'')]
      | None \<Rightarrow>
          [TextPart ''You are an expert image editor. Edit the following image based on the text prompt.'',
           fileToGenerativePart baseImage]
          @ (case overlay of
               None \<Rightarrow> []
             | Some ov \<Rightarrow>
                 [TextPart ''Integrate this overlay object into the scene, following the text instructions.'',
                  fileToGenerativePart ov])
          @ [TextPart (''Editing instructions: "'' @ prompt @ ''".'' @ intensityQualifier intensity)])\<close>

definition gemini_editRequest ::
  "ImageFile \<Rightarrow> string \<Rightarrow> ImageFile option \<Rightarrow> nat option \<Rightarrow> ImageFile option \<Rightarrow> GeminiRequest" where
  "gemini_editRequest baseImage prompt overlay intensity maskImage =
     \<lparr>model = ''gemini-2.5-flash-image'',
      contents = Parts (gemini_editParts baseImage prompt overlay intensity maskImage),
      config = ImageModality\<rparr>"

definition gemini_editImage ::
  "'w GenerateContent \<Rightarrow> string option \<Rightarrow> ImageFile \<Rightarrow> string \<Rightarrow> ImageFile option \<Rightarrow> nat option
   \<Rightarrow> ImageFile option \<Rightarrow> 'w \<Rightarrow> (error + string) \<times> 'w \<times> RetryEvent list" where
  "gemini_editImage generateContent env baseImage prompt overlay intensity maskImage w =
     (case gemini_withRetry
             (generateContent (gemini_API_KEY env)
                (gemini_editRequest baseImage prompt overlay intensity maskImage)) w of
        (Inl e, w', events) \<Rightarrow> (Inl e, w', events)
      | (Inr response, w', events) \<Rightarrow> (gemini_imageData response, w', events))"

section \<open>The OpenAI service (services/openaiService.ts)\<close>

text \<open>
  A value appended to a \<^verbatim>\<open>FormData\<close>: a text field, or a \<^verbatim>\<open>Blob\<close> (its bytes and type)
  with a file name.
\<close>

datatype FormValue = Field string | BlobFile string string string

text \<open>
  The bodies the service sends. \<open>ChatBody model content\<close> is the JSON of one user
  message with \<^verbatim>\<open>response_format: json_object\<close>, \<^verbatim>\<open>n: 1\<close> and \<^verbatim>\<open>temperature: 0.7\<close>;
  \<open>GenerationBody model prompt\<close> is the JSON with \<^verbatim>\<open>n: 1\<close>, \<^verbatim>\<open>size: '1024x1024'\<close>,
  \<^verbatim>\<open>response_format: 'b64_json'\<close>, \<^verbatim>\<open>quality: 'hd'\<close> and \<^verbatim>\<open>style: 'vivid'\<close>.
\<close>

datatype HttpBody =
    ChatBody string string
  | GenerationBody string string
  | FormBody "(string \<times> FormValue) list"

record HttpRequest =
  url :: string
  headers :: "(string \<times> string) list"
  body :: HttpBody

text \<open>
  What the service reads of the object that \<^verbatim>\<open>response.json()\<close> yields:
  \<^verbatim>\<open>error?.message\<close>; \<^verbatim>\<open>choices\<close>, each choice as its \<^verbatim>\<open>message?.content\<close>; \<^verbatim>\<open>data\<close>, each
  entry as its \<^verbatim>\<open>b64_json\<close>. \<open>None\<close> is a missing or \<^verbatim>\<open>null\<close> property.
\<close>

record ResponseJson =
  j_errorMessage :: "string option"
  j_choices :: "string option list option"
  j_data :: "string option list option"

text \<open>A response of \<^verbatim>\<open>fetch\<close>; \<open>jsonBody\<close> is \<open>None\<close> when \<^verbatim>\<open>response.json()\<close> rejects.\<close>

record HttpResponse =
  ok :: bool
  statusText :: string
  jsonBody :: "ResponseJson option"

type_synonym 'w Fetch = "HttpRequest \<Rightarrow> 'w \<Rightarrow> (error + HttpResponse) \<times> 'w"

definition CHAT_COMPLETIONS_URL :: string where
  "CHAT_COMPLETIONS_URL = ''https://api.openai.com/v1/chat/completions''"


definition IMAGE_EDITS_URL :: string where
  "IMAGE_EDITS_URL = ''https://api.openai.com/v1/images/edits''"

definition notConfigured :: error where
  "notConfigured = Error ''OpenAI API key is not configured.''"

text \<open>
  \<^verbatim>\<open>base64ToBlob\<close>; \<open>atob\<close> is the platform's decoder, \<open>None\<close> where it throws on a
  string that is not base64.
\<close>

definition base64ToBlob :: "(string \<Rightarrow> string option) \<Rightarrow> string \<Rightarrow> string \<Rightarrow> error + string \<times> string" where
  "base64ToBlob atob b64 mime =
     (case atob b64 of
        None \<Rightarrow> Inl InvalidCharacterError
      | Some byteCharacters \<Rightarrow> Inr (byteCharacters, mime))"

text \<open>
  What the service throws on a response that is not \<^verbatim>\<open>ok\<close>:
  \<^verbatim>\<open>errorData.error?.message || response.statusText\<close> after the fixed prefix.
\<close>

definition openai_apiError :: "HttpResponse \<Rightarrow> error" where
  "openai_apiError response =
     (case jsonBody response of
        None \<Rightarrow> SyntaxError
      | Some errorData \<Rightarrow>
          Error (''OpenAI API Error: '' @
                 (case j_errorMessage errorData of
                    None \<Rightarrow> statusText response
                  | Some m \<Rightarrow> if m = [] then statusText response else m)))"

definition openai_fullPrompt :: "string \<Rightarrow> string \<Rightarrow> string" where
  \<open>openai_fullPrompt prompt styleContext =
     ''You are an expert architectural visualization assistant. Your task is to refine a user's prompt to be more descriptive and evocative for an AI image generator.''
     @ nl @ styleInstruction styleContext
     @ nl @ ''User prompt: "'' @ prompt @ ''"''
     @ nl @ ''Please provide 3 distinct, creative, and detailed suggestions in a JSON object with a key "suggestions" which is an array of strings. For example: {"suggestions": ["suggestion 1", "suggestion 2", "suggestion 3"]}''\<close>

definition openai_refineRequest :: "string \<Rightarrow> string \<Rightarrow> string \<Rightarrow> HttpRequest" where
  "openai_refineRequest apiKey prompt styleContext =
     \<lparr>url = CHAT_COMPLETIONS_URL,
      headers = [(''Content-Type'', ''application/json''), (''Authorization'', ''Bearer '' @ apiKey)],
      body = ChatBody ''gpt-4o'' (openai_fullPrompt prompt styleContext)\<rparr>"

text \<open>
  The \<^verbatim>\<open>try\<close>/\<^verbatim>\<open>catch\<close> of \<^verbatim>\<open>refineTextPrompt\<close> on \<open>content\<close>, which is
  \<^verbatim>\<open>data.choices[0]?.message?.content\<close>. \<^verbatim>\<open>!content\<close> holds of a missing content and of
  the empty string. The handler evaluates \<^verbatim>\<open>content.trim()\<close>, a \<^verbatim>\<open>TypeError\<close> when there is
  no content.
\<close>

definition openai_parseSuggestions :: "(string \<Rightarrow> json option) \<Rightarrow> string option \<Rightarrow> error + json list" where
  "openai_parseSuggestions jsonParse content =
     (case (case content of
              None \<Rightarrow> Inl (Error ''No content from OpenAI.'')
            | Some c \<Rightarrow>
                if c = [] then Inl (Error ''No content from OpenAI.'')
                else trySuggestions jsonParse c) of
        Inr result \<Rightarrow> Inr result
      | Inl e \<Rightarrow>
          (case content of
             None \<Rightarrow> Inl TypeError
           | Some c \<Rightarrow> Inr [JString (trim c)]))"

text \<open>
  The code after the \<^verbatim>\<open>fetch\<close> of \<^verbatim>\<open>refineTextPrompt\<close>. Indexing a missing
  \<^verbatim>\<open>choices\<close> is a \<^verbatim>\<open>TypeError\<close>; element 0 of an empty array is \<^verbatim>\<open>undefined\<close>.
\<close>

definition openai_refineResult :: "(string \<Rightarrow> json option) \<Rightarrow> HttpResponse \<Rightarrow> error + json list" where
  "openai_refineResult jsonParse response =
     (if \<not> ok response then Inl (openai_apiError response)
      else (case jsonBody response of
              None \<Rightarrow> Inl SyntaxError
            | Some data \<Rightarrow>
                (case j_choices data of
                   None \<Rightarrow> Inl TypeError
                 | Some choices \<Rightarrow>
                     (let content = (case choices of [] \<Rightarrow> None | c # _ \<Rightarrow> c)
                      in openai_parseSuggestions jsonParse content))))"

definition openai_refineTextPrompt ::
  "(string \<Rightarrow> json option) \<Rightarrow> 'w Fetch \<Rightarrow> string option \<Rightarrow> string \<Rightarrow> string \<Rightarrow> 'w
   \<Rightarrow> (error + json list) \<times> 'w \<times> RetryEvent list" where
  "openai_refineTextPrompt jsonParse fetch env prompt styleContext w =
     (let API_KEY = getOpenAiApiKey env
      in if API_KEY = [] then (Inl notConfigured, w, [])
         else (case openai_withRetry (fetch (openai_refineRequest API_KEY prompt styleContext)) w of
                 (Inl e, w', events) \<Rightarrow> (Inl e, w', events)
               | (Inr response, w', events) \<Rightarrow>
                   (openai_refineResult jsonParse response, w', events)))"

text \<open>
  The code after the \<^verbatim>\<open>fetch\<close> of the two image operations; \<open>noImage\<close> is the message
  of the error for a missing or empty \<^verbatim>\<open>b64_json\<close>.
\<close>

definition openai_imageResult :: "string \<Rightarrow> HttpResponse \<Rightarrow> error + string" where
  "openai_imageResult noImage response =
     (if \<not> ok response then Inl (openai_apiError response)
      else (case jsonBody response of
              None \<Rightarrow> Inl SyntaxError
            | Some data \<Rightarrow>
                (case j_data data of
                   None \<Rightarrow> Inl TypeError
                 | Some entries \<Rightarrow>
                     (let b64_json = (case entries of [] \<Rightarrow> None | d # _ \<Rightarrow> d)
                      in case b64_json of
                           None \<Rightarrow> Inl (Error noImage)
                         | Some b \<Rightarrow> if b = [] then Inl (Error noImage) else Inr b))))"



definition openai_editRequest :: "string \<Rightarrow> string \<times> string \<Rightarrow> string \<times> string \<Rightarrow> string \<Rightarrow> HttpRequest" where
  "openai_editRequest apiKey imageBlob maskBlob prompt =
     \<lparr>url = IMAGE_EDITS_URL,
      headers = [(''Authorization'', ''Bearer '' @ apiKey)],
      body = FormBody
        [(''image'', BlobFile (fst imageBlob) (snd imageBlob) ''base_image.png''),
         (''mask'', BlobFile (fst maskBlob) (snd maskBlob) ''mask_image.png''),
         (''prompt'', Field prompt),
         (''n'', Field ''1''),
         (''size'', Field ''1024x1024''),
         (''response_format'', Field ''b64_json'')]\<rparr>"

text \<open>
  \<^verbatim>\<open>editImage\<close>. The three guards come before anything else; the intensity is not read.
\<close>

definition openai_editImage ::
  "(string \<Rightarrow> string option) \<Rightarrow> 'w Fetch \<Rightarrow> string option \<Rightarrow> ImageFile \<Rightarrow> string
   \<Rightarrow> ImageFile option \<Rightarrow> nat option \<Rightarrow> ImageFile option \<Rightarrow> 'w
   \<Rightarrow> (error + string) \<times> 'w \<times> RetryEvent list" where
  "openai_editImage atob fetch env baseImage prompt overlay intensity maskImage w =
     (let API_KEY = getOpenAiApiKey env
      in if API_KEY = [] then (Inl notConfigured, w, [])
         else if overlay \<noteq> None
         then (Inl (Error ''Overlay images are not supported by the OpenAI provider. Please remove the overlay image and try again.''),
               w, [])
         else (case maskImage of
                 None \<Rightarrow>
                   (Inl (Error ''The OpenAI provider requires a mask for image editing. Please use the 'Guided Edit' mode, draw on the image to create a mask, and provide instructions.''),
                    w, [])
               | Some m \<Rightarrow>
                   (case base64ToBlob atob (base64 baseImage) (mimeType baseImage) of
                      Inl e \<Rightarrow> (Inl e, w, [])
                    | Inr imageBlob \<Rightarrow>
                        (case base64ToBlob atob (base64 m) (mimeType m) of
                           Inl e \<Rightarrow> (Inl e, w, [])
                         | Inr maskBlob \<Rightarrow>
                             (case openai_withRetry
                                     (fetch (openai_editRequest API_KEY imageBlob maskBlob prompt)) w of
                                (Inl e, w', events) \<Rightarrow> (Inl e, w', events)
                              | (Inr response, w', events) \<Rightarrow>
                                  (openai_imageResult
                                     ''No image data received from OpenAI API for editing.''
                                     response,
                                   w', events))))))"

section \<open>Dispatching a remote call (App.tsx, firebase.ts)\<close>

text \<open>
  What the session takes from outside itself: whether \<^verbatim>\<open>auth\<close> of \<^verbatim>\<open>firebase.ts\<close> is set
  and its \<^verbatim>\<open>firebaseError\<close>; the two environment variables of the keys; the remote
  calls \<^verbatim>\<open>ai.models.generateContent\<close> and \<^verbatim>\<open>fetch\<close>; \<^verbatim>\<open>atob\<close>; and the \<^verbatim>\<open>message\<close> that
  the runtime gives to an error it raises itself.
\<close>

record 'w Platform =
  auth :: bool
  firebaseError :: "string option"
  API_KEY_env :: "string option"
  OPENAI_API_KEY_env :: "string option"
  p_generateContent :: "'w GenerateContent"
  p_fetch :: "'w Fetch"
  p_atob :: "string \<Rightarrow> string option"
  p_message :: "error \<Rightarrow> string"

text \<open>
  \<^verbatim>\<open>err instanceof Error ? err.message : 'An unknown error occurred.'\<close>: every error of
  the model is an instance of \<^verbatim>\<open>Error\<close>.
\<close>

definition errorMessage :: "'w Platform \<Rightarrow> error \<Rightarrow> string" where
  "errorMessage P err = (case err of Error m \<Rightarrow> m | _ \<Rightarrow> p_message P err)"

text \<open>
  \<^verbatim>\<open>handleApiCall\<close>, from the state it is called in to the state after the call has
  settled, with the world the call leaves and its events. Without \<^verbatim>\<open>auth\<close> or a signed-in
  user only the error is set and the call is not made.
\<close>

definition handleApiCall ::
  "'w Platform \<Rightarrow> ('w \<Rightarrow> (error + 'a) \<times> 'w \<times> RetryEvent list) \<Rightarrow> ('a \<Rightarrow> AppState \<Rightarrow> AppState)
   \<Rightarrow> AppState \<Rightarrow> 'w \<Rightarrow> AppState \<times> 'w \<times> RetryEvent list" where
  "handleApiCall P apiCall onSuccess s w =
     (if \<not> auth P \<or> currentUser s = None
      then (s\<lparr>error := Some
                (case firebaseError P of
                   None \<Rightarrow> ''You must be signed in to perform this action.''
                 | Some m \<Rightarrow>
                     if m = [] then ''You must be signed in to perform this action.''
                     else ''Authentication is unavailable: '' @ m)\<rparr>,
            w, [])
      else (case apiCall w of
              (Inr result, w', events) \<Rightarrow>
                ((onSuccess result (s\<lparr>isLoading := True, error := None\<rparr>))\<lparr>isLoading := False\<rparr>,
                 w', events)
            | (Inl err, w', events) \<Rightarrow>
                (s\<lparr>isLoading := False, error := Some (errorMessage P err)\<rparr>, w', events)))"

text \<open>
  \<^verbatim>\<open>handleEnhanceProcess\<close>, which the Enhance tab receives as \<^verbatim>\<open>onProcess\<close>: nothing
  without a base image; otherwise the active provider's \<^verbatim>\<open>editImage\<close> under
  \<^verbatim>\<open>handleApiCall\<close>, and on success the stored result.
\<close>

definition handleEnhanceProcess ::
  "'w Platform \<Rightarrow> string \<Rightarrow> string \<Rightarrow> nat \<Rightarrow> ImageFile option \<Rightarrow> ImageFile option
   \<Rightarrow> AppState \<Rightarrow> 'w \<Rightarrow> AppState \<times> 'w \<times> RetryEvent list" where
  "handleEnhanceProcess P prompt style intensity overlay maskImage s w =
     (case inputImage s of
        None \<Rightarrow> (s, w, [])
      | Some baseImage \<Rightarrow>
          handleApiCall P
            (if aiProvider s = Gemini
             then gemini_editImage (p_generateContent P) (API_KEY_env P)
                    baseImage prompt overlay (Some intensity) maskImage
             else openai_editImage (p_atob P) (p_fetch P) (OPENAI_API_KEY_env P)
                    baseImage prompt overlay (Some intensity) maskImage)
            (\<lambda>outputImage.
               enhanceSucceeded baseImage prompt style intensity overlay maskImage outputImage)
            s w)"

section \<open>The mask canvas (EnhanceTab.tsx)\<close>

type_synonym byte = "8 word"

text \<open>
  The coverage canvas: its dimensions and the RGBA bytes that
  \<^verbatim>\<open>getImageData(0, 0, width, height).data\<close> reads, four per pixel, row by row.
  \<open>context2d\<close> says whether \<^verbatim>\<open>getContext('2d')\<close> yields a context.
\<close>

record Canvas =
  width :: nat
  height :: nat
  pixels :: "byte list"
  context2d :: bool

text \<open>
  Reading a typed array out of range yields \<^verbatim>\<open>undefined\<close>, and
  \<^verbatim>\<open>undefined > 0\<close> is false.
\<close>

definition readByte :: "byte list \<Rightarrow> nat \<Rightarrow> byte option" where
  "readByte xs i = (if i < length xs then Some (xs ! i) else None)"

definition positive :: "byte option \<Rightarrow> bool" where
  "positive v = (case v of None \<Rightarrow> False | Some a \<Rightarrow> 0 < a)"

text \<open>
  The first loop of \<^verbatim>\<open>getMaskAsImageFile\<close>, started at \<open>i = 3\<close>; its value is
  \<^verbatim>\<open>isMaskEmpty\<close> when the loop is left.
\<close>

function isMaskEmpty :: "byte list \<Rightarrow> nat \<Rightarrow> bool" where
  "isMaskEmpty pixelData i =
     (if i < length pixelData
      then (if positive (readByte pixelData i) then False
            else isMaskEmpty pixelData (i + 4))
      else True)"
  by pat_completeness auto
termination
  by (relation "measure (\<lambda>(pixelData, i). length pixelData - i)") auto

text \<open>
  The second loop, started at \<open>i = 0\<close> on the zero-filled buffer of
  \<^verbatim>\<open>createImageData\<close>. A write past the end of a typed array is ignored, as a list
  update past the end is.
\<close>

function paintMask :: "byte list \<Rightarrow> nat \<Rightarrow> byte list \<Rightarrow> byte list" where
  "paintMask pixelData i data =
     (if i < length pixelData
      then (let alpha = readByte pixelData (i + 3);
                data' = (if positive alpha
                         then data[i := 255, i + 1 := 255, i + 2 := 255]
                         else data[i := 0, i + 1 := 0, i + 2 := 0])
            in paintMask pixelData (i + 4) (data'[i + 3 := 255]))
      else data)"
  by pat_completeness auto
termination
  by (relation "measure (\<lambda>(pixelData, i, data). length pixelData - i)") auto

declare isMaskEmpty.simps [simp del] paintMask.simps [simp del]

text \<open>
  \<^verbatim>\<open>getMaskAsImageFile\<close> up to \<^verbatim>\<open>putImageData\<close>: the bitmap put on the new mask
  canvas, or \<open>None\<close> where the source returns \<^verbatim>\<open>null\<close>. \<open>canvasRef\<close> is
  \<^verbatim>\<open>canvasRef.current\<close>; \<open>maskContext\<close> says whether the canvas made by
  \<^verbatim>\<open>document.createElement\<close> yields a 2d context.
\<close>

definition binaryMask :: "bool \<Rightarrow> Canvas option \<Rightarrow> Canvas option" where
  "binaryMask maskContext canvasRef =
     (case canvasRef of
        None \<Rightarrow> None
      | Some canvas \<Rightarrow>
          if width canvas = 0 \<or> height canvas = 0 then None
          else if \<not> context2d canvas then None
          else (let pixelData = pixels canvas
                in if isMaskEmpty pixelData 3 then None
                   else if \<not> maskContext then None
                   else Some \<lparr>width = width canvas, height = height canvas,
                              pixels = paintMask pixelData 0
                                         (replicate (4 * width canvas * height canvas) 0),
                              context2d = True\<rparr>))"

text \<open>
  \<open>encodePng c\<close> stands for \<^verbatim>\<open>c.toDataURL('image/png').split(',')[1]\<close>, the base64
  payload of the PNG encoding, which the browser computes.
\<close>

definition getMaskAsImageFile :: "(Canvas \<Rightarrow> string) \<Rightarrow> bool \<Rightarrow> Canvas option \<Rightarrow> ImageFile option" where
  "getMaskAsImageFile encodePng maskContext canvasRef =
     (case binaryMask maskContext canvasRef of
        None \<Rightarrow> None
      | Some maskCanvas \<Rightarrow>
          Some \<lparr>base64 = encodePng maskCanvas, mimeType = ''image/png'', name = ''mask.png''\<rparr>)"

text \<open>\<^verbatim>\<open>clearMask\<close>: \<^verbatim>\<open>clearRect\<close> over the whole canvas makes every pixel transparent black.\<close>

definition clearMask :: "Canvas option \<Rightarrow> Canvas option" where
  "clearMask canvasRef =
     (case canvasRef of
        None \<Rightarrow> None
      | Some canvas \<Rightarrow>
          if \<not> context2d canvas then Some canvas
          else Some (canvas\<lparr>pixels := replicate (4 * width canvas * height canvas) 0\<rparr>))"

text \<open>The four bytes of pixel \<open>p\<close> of an RGBA buffer.\<close>

definition pixelAt :: "byte list \<Rightarrow> nat \<Rightarrow> byte \<times> byte \<times> byte \<times> byte" where
  "pixelAt xs p = (xs ! (4 * p), xs ! (4 * p + 1), xs ! (4 * p + 2), xs ! (4 * p + 3))"

definition alphaAt :: "byte list \<Rightarrow> nat \<Rightarrow> byte" where
  "alphaAt xs p = xs ! (4 * p + 3)"

section \<open>The Enhance tab (EnhanceTab.tsx, constants.ts)\<close>

definition ENHANCE_STYLE_OPTIONS :: "(string \<times> string) list" where
  "ENHANCE_STYLE_OPTIONS =
   [(''Standard Clarity'', ''Apply standard photorealistic clarity and sharpness.''),
    (''Golden Hour'', ''Bathe the scene in warm, golden hour light with long, soft shadows.''),
    (''Twilight'', ''Create a cool, moody twilight atmosphere with artificial lights on.''),
    (''Diffuse Light'', ''Simulate an overcast day with soft, diffuse lighting and minimal shadows.''),
    (''Dramatic Night'', ''Transform the scene to a dramatic night view with strategic architectural lighting and deep shadows.''),
    (''Morning Fog'', ''Envelop the scene in a soft, ethereal morning fog, with light filtering through.''),
    (''Rainy Day'', ''Create a moody, atmospheric rainy day scene with wet, reflective surfaces and soft light.''),
    (''Winter Snow'', ''Cover the scene in a peaceful blanket of fresh snow under a soft winter light.''),
    (''Cinematic Contrast'', ''Add high-contrast, cinematic lighting with a slightly desaturated, filmic look.''),
    (''Film Sims: Classic Chrome'', ''Emulate a classic chrome film stock with muted tones and high contrast.''),
    (''Film Sims: Portra 400'', ''Emulate a Portra 400 film stock with warm tones and natural skin rendering.''),
    (''Film Sims: Cinestill 800T'', ''Emulate a Cinestill 800T film stock, perfect for night scenes with halation effects on lights.''),
    (''Pro Corrections: HDR'', ''Apply High Dynamic Range correction to balance highlights and shadows.''),
    (''Pro Corrections: B&W'', ''Convert to a dramatic, high-contrast black and white architectural photograph.''),
    (''Pro Corrections: Vibrant Clarity'', ''Boost vibrancy and local contrast for a punchy, clear image.''),
    (''Pro Corrections: Soft Dreamy'', ''Add a soft, dreamy, slightly overexposed glow to the image.''),
    (''Pro Corrections: Architectural Digest'', ''Give the image a polished, high-end look suitable for an Architectural Digest cover, with perfect lighting and composition.''),
    (''Artistic Styles: Blueprint'', ''Render the image in a technical blueprint style.''),
    (''Artistic Styles: Watercolor'', ''Transform the image into an artistic watercolor painting.''),
    (''Artistic Styles: Oil Painting'', ''Transform the image into a textured oil painting.''),
    (''Artistic Styles: Clay Model'', ''Render the image as a monochromatic clay model to emphasize form and shadow.''),
    (''Artistic Styles: Line Drawing'', ''Overlay a clean, technical line drawing style on top of the rendering.'')]"

datatype Mode = ModeEnhance | ModeEdit

text \<open>The \<^verbatim>\<open>useState\<close> slots and the canvas of \<^verbatim>\<open>EnhanceTab\<close> that submission reads.\<close>

record EnhanceTabState =
  mode :: Mode
  enhanceStyle :: string
  editPrompt :: string
  intensity :: nat
  canvasRef :: "Canvas option"

definition initialTab :: EnhanceTabState where
  "initialTab =
     \<lparr>mode = ModeEnhance, enhanceStyle = fst (hd ENHANCE_STYLE_OPTIONS), editPrompt = [],
      intensity = 50, canvasRef = None\<rparr>"

text \<open>
  The arguments of one \<^verbatim>\<open>onProcess\<close> call. The prompt of an enhancement is the table
  entry \<^verbatim>\<open>ENHANCE_STYLE_OPTIONS[enhanceStyle]\<close>, which is \<^verbatim>\<open>undefined\<close> (\<open>None\<close>) for
  a string that is no key of the table.
\<close>

record ProcessCall =
  c_prompt :: "string option"
  c_style :: string
  c_intensity :: nat
  c_overlay :: "ImageFile option"
  c_mask :: "ImageFile option"

text \<open>
  \<^verbatim>\<open>handleProcess\<close>: \<open>None\<close> where it returns without calling \<^verbatim>\<open>onProcess\<close>. The
  props \<^verbatim>\<open>inputImage\<close> and \<^verbatim>\<open>overlayImage\<close> are the slots of the session state.
\<close>

definition handleProcess ::
  "(Canvas \<Rightarrow> string) \<Rightarrow> bool \<Rightarrow> AppState \<Rightarrow> EnhanceTabState \<Rightarrow> ProcessCall option" where
  "handleProcess encodePng maskContext app t =
     (case inputImage app of
        None \<Rightarrow> None
      | Some _ \<Rightarrow>
          if mode t = ModeEnhance
          then Some \<lparr>c_prompt = map_of ENHANCE_STYLE_OPTIONS (enhanceStyle t),
                     c_style = enhanceStyle t, c_intensity = 100,
                     c_overlay = None, c_mask = None\<rparr>
          else if editPrompt t = [] then None
          else (let maskFile = getMaskAsImageFile encodePng maskContext (canvasRef t)
                in Some \<lparr>c_prompt = Some (editPrompt t), c_style = ''Guided Edit'',
                          c_intensity = intensity t, c_overlay = overlayImage app,
                          c_mask = maskFile\<rparr>))"

text \<open>
  \<^verbatim>\<open>handleImageUpload\<close>: the mask is cleared, then the session's
  \<^verbatim>\<open>handleSetInputImage\<close> runs (the prop \<^verbatim>\<open>setInputImage\<close>).
\<close>

definition handleImageUpload ::
  "ImageFile option \<Rightarrow> EnhanceTabState \<times> AppState \<Rightarrow> EnhanceTabState \<times> AppState" where
  "handleImageUpload file st =
     (case st of (t, app) \<Rightarrow>
        (t\<lparr>canvasRef := clearMask (canvasRef t)\<rparr>, handleSetInputImage file app))"

section \<open>Sample data\<close>

text \<open>Concrete images and states on which the results below are evaluated.\<close>

definition sampleImage :: "string \<Rightarrow> ImageFile" where
  "sampleImage payload = \<lparr>base64 = payload, mimeType = ''image/png'', name = ''sample.png''\<rparr>"

definition sampleResult :: "OutputType \<Rightarrow> GeneratedOutput" where
  "sampleResult ty =
     \<lparr>g_type = ty, g_prompt = ''a glass pavilion'', g_style = ''Minimalist'',
      g_resolution = None, g_inputImage = None, g_outputImage = ''UkVTVUxU'',
      g_overlayImage = None, g_maskImage = None, g_intensity = None\<rparr>"

definition elevenImages :: "ImageFile list" where
  "elevenImages = map sampleImage
     [''00'', ''01'', ''02'', ''03'', ''04'', ''05'', ''06'', ''07'', ''08'', ''09'', ''10'']"

definition fullHistoryState :: AppState where
  "fullHistoryState =
     initialState\<lparr>view := ViewEnhance,
                  inputImage := Some (sampleImage ''QkFTRQ==''),
                  undoHistory := take 10 elevenImages,
                  generatedOutput := Some (sampleResult TypeEnhance),
                  isResultModalOpen := True\<rparr>"

text \<open>
  A sample canvas of two by two pixels after a stroke over its first and last pixel,
  in the stroke colour at partial opacity.
\<close>

definition strokeCanvas :: Canvas where
  "strokeCanvas =
     \<lparr>width = 2, height = 2,
      pixels = [198, 166, 100, 179,  0, 0, 0, 0,  0, 0, 0, 0,  198, 166, 100, 1],
      context2d = True\<rparr>"

text \<open>
  A sample operation on a call counter: it throws on its first \<open>k\<close> calls, each time
  with a message that names the call, and returns \<open>42\<close> afterwards.
\<close>

definition failsFirst :: "nat \<Rightarrow> nat \<Rightarrow> (error + nat) \<times> nat" where
  "failsFirst k n =
     (if n < k
      then (Inl (Error (if n = 0 then ''first failure''
                        else if n = 1 then ''second failure''
                        else ''later failure'')), n + 1)
      else (Inr 42, n + 1))"

text \<open>
  A sample Gemini endpoint on a call counter: it rejects a client without a key, and
  otherwise answers with an image and a text that is no JSON.
\<close>

definition sampleGenerateContent :: "nat GenerateContent" where
  "sampleGenerateContent apiKey request n =
     (if apiKey = []
      then (Inl (Error ''API key not valid. Please pass a valid API key.''), n + 1)
      else (Inr \<lparr>responseText = Some '' Sorry, no suggestions today. '',
                 firstPart = Some (InlineData ''UkVTVUxU'' ''image/png'')\<rparr>, n + 1))"

text \<open>
  A sample OpenAI endpoint on a call counter: every request is answered \<^verbatim>\<open>ok\<close>, with one
  choice of the given content and one image.
\<close>

definition sampleFetch :: "string option \<Rightarrow> nat Fetch" where
  "sampleFetch content request n =
     (Inr \<lparr>ok = True, statusText = ''OK'',
           jsonBody = Some \<lparr>j_errorMessage = None, j_choices = Some [content],
                            j_data = Some [Some ''UkVTVUxU'']\<rparr>\<rparr>, n + 1)"

text \<open>
  Sample endpoints on a call counter that fail twice before they answer: the Gemini one
  with the given text (or none) and an image, the OpenAI one as \<open>sampleFetch\<close> does.
\<close>

definition flakyGenerateContent :: "string option \<Rightarrow> nat GenerateContent" where
  "flakyGenerateContent answer apiKey request n =
     (if n < 2 then (Inl (Error ''503 Service Unavailable''), n + 1)
      else (Inr \<lparr>responseText = answer,
                 firstPart = Some (InlineData ''UkVTVUxU'' ''image/png'')\<rparr>, n + 1))"

definition flakyFetch :: "string option \<Rightarrow> nat Fetch" where
  "flakyFetch content request n =
     (if n < 2 then (Inl (Error ''Failed to fetch''), n + 1)
      else sampleFetch content request n)"

text \<open>
  A sample platform whose world is the list of the requests sent so far: a signed-in
  setup with both keys, whose endpoints record each request and answer with an image.
\<close>

datatype Sent = SentGemini GeminiRequest | SentHttp HttpRequest

definition recordingPlatform :: "Sent list Platform" where
  "recordingPlatform =
     \<lparr>auth = True, firebaseError = None,
      API_KEY_env = Some ''test-key'', OPENAI_API_KEY_env = Some ''test-key'',
      p_generateContent =
        (\<lambda>apiKey request sent.
           (Inr \<lparr>responseText = None,
                 firstPart = Some (InlineData ''UkVTVUxU'' ''image/png'')\<rparr>,
            sent @ [SentGemini request])),
      p_fetch =
        (\<lambda>request sent.
           (Inr \<lparr>ok = True, statusText = ''OK'',
                 jsonBody = Some \<lparr>j_errorMessage = None, j_choices = None,
                                  j_data = Some [Some ''UkVTVUxU'']\<rparr>\<rparr>,
            sent @ [SentHttp request])),
      p_atob = Some,
      p_message = (\<lambda>err. ''runtime error'')\<rparr>"

definition enhanceSession :: AppState where
  "enhanceSession =
     fullHistoryState\<lparr>overlayImage := Some (sampleImage ''T1ZFUg==''),
                       currentUser := Some ''user-1'',
                       generatedOutput := None,
                       isResultModalOpen := False\<rparr>"

text \<open>
  \<^verbatim>\<open>JSON.parse\<close> on the few texts of the examples: one object with four suggestions,
  \<^verbatim>\<open>null\<close>, and anything else taken as malformed.
\<close>

definition sampleParse :: "string \<Rightarrow> json option" where
  \<open>sampleParse txt =
     (if txt = ''{"suggestions": ["a", "b", "c", "d"]}''
      then Some (JObject [(''suggestions'', JArray [JString ''a'', JString ''b'', JString ''c'', JString ''d''])])
      else if txt = ''null'' then Some JNull
      else None)\<close>

section \<open>Wording of the specification\<close>

text \<open>
  A response text "can be parsed into a suggestions list" when it parses and the value
  has a non-empty array as its \<^verbatim>\<open>suggestions\<close>.
\<close>

definition parsesToSuggestions :: "(string \<Rightarrow> json option) \<Rightarrow> string \<Rightarrow> bool" where
  "parsesToSuggestions jsonParse txt =
     (case jsonParse txt of
        None \<Rightarrow> False
      | Some j \<Rightarrow>
          (case property j ''suggestions'' of
             Some (JArray xs) \<Rightarrow> xs \<noteq> []
           | _ \<Rightarrow> False))"

section \<open>Undo history: bound and content\<close>

lemma addImage_Some: "addImageToUndoHistory (Some img) h = take MAX_UNDO_STEPS (img # h)"
  by (simp add: addImageToUndoHistory_def Let_def)

lemma addImage_None: "addImageToUndoHistory None h = h"
  by (simp add: addImageToUndoHistory_def)

lemma addImage_length_le:
  "length h \<le> MAX_UNDO_STEPS \<Longrightarrow> length (addImageToUndoHistory img h) \<le> MAX_UNDO_STEPS"
  by (cases img) (simp_all add: addImageToUndoHistory_def Let_def)

lemma take_Cons_take: "take n (x # take n xs) = take n (x # xs)"
  by (cases n) (simp_all add: min_def)

lemma pushAll_snoc:
  "pushAll h (imgs @ [img]) = take MAX_UNDO_STEPS (img # pushAll h imgs)"
  by (simp add: pushAll_def addImage_Some)

lemma pushAll_take:
  "imgs \<noteq> [] \<Longrightarrow> pushAll h imgs = take MAX_UNDO_STEPS (rev imgs @ h)"
proof (induction imgs rule: rev_induct)
  case Nil
  then show ?case by simp
next
  case (snoc img imgs)
  show ?case
  proof (cases "imgs = []")
    case True
    then show ?thesis by (simp add: pushAll_def addImage_Some)
  next
    case False
    with snoc.IH have ih: "pushAll h imgs = take MAX_UNDO_STEPS (rev imgs @ h)" by simp
    have "pushAll h (imgs @ [img]) = take MAX_UNDO_STEPS (img # take MAX_UNDO_STEPS (rev imgs @ h))"
      unfolding pushAll_snoc ih ..
    also have "\<dots> = take MAX_UNDO_STEPS (img # rev imgs @ h)"
      by (rule take_Cons_take)
    finally show ?thesis by simp
  qed
qed

lemma step_history_bounded:
  "length (undoHistory s) \<le> MAX_UNDO_STEPS \<Longrightarrow>
   length (undoHistory (step s e)) \<le> MAX_UNDO_STEPS"
proof (cases e)
  case (SetInputImage f)
  assume "length (undoHistory s) \<le> MAX_UNDO_STEPS"
  then show ?thesis
    using SetInputImage by (simp add: handleSetInputImage_def addImage_length_le)
next
  case Undo
  assume "length (undoHistory s) \<le> MAX_UNDO_STEPS"
  then show ?thesis
    using Undo by (auto simp add: handleUndo_def split: list.splits)
next
  case ContinueEditing
  assume "length (undoHistory s) \<le> MAX_UNDO_STEPS"
  then show ?thesis
    using ContinueEditing
    by (simp add: handleContinueEditing_def addImage_length_le split: option.splits)
next
  case SendToEnhance
  assume "length (undoHistory s) \<le> MAX_UNDO_STEPS"
  then show ?thesis
    using SendToEnhance by (simp add: handleSendToEnhance_def split: option.splits)
next
  case (EnhanceSucceeded b p st i ov m out)
  assume "length (undoHistory s) \<le> MAX_UNDO_STEPS"
  then show ?thesis
    using EnhanceSucceeded by (simp add: enhanceSucceeded_def)
qed (simp_all add: createSucceeded_def)

lemma run_history_bounded:
  "length (undoHistory s) \<le> MAX_UNDO_STEPS \<Longrightarrow>
   length (undoHistory (run s es)) \<le> MAX_UNDO_STEPS"
  unfolding run_def
  by (induction es arbitrary: s) (simp_all add: step_history_bounded)

text \<open>
  C6. After more than ten pushes onto any history, the history has exactly ten entries,
  and they are the ten assets pushed last, the most recent first. Whatever the user
  does from the initial state, the history never holds more than ten entries.
\<close>

theorem undo_history_keeps_ten_most_recent:
  "(MAX_UNDO_STEPS < length imgs \<longrightarrow>
      length (pushAll h imgs) = 10 \<and> pushAll h imgs = take 10 (rev imgs))
   \<and> length (undoHistory (run initialState es)) \<le> 10"
proof (intro conjI impI)
  assume long: "MAX_UNDO_STEPS < length imgs"
  then have "imgs \<noteq> []" by auto
  then have "pushAll h imgs = take MAX_UNDO_STEPS (rev imgs @ h)"
    by (rule pushAll_take)
  with long show eq: "pushAll h imgs = take 10 (rev imgs)"
    by (simp add: MAX_UNDO_STEPS_def)
  from long show "length (pushAll h imgs) = 10"
    unfolding eq by (simp add: MAX_UNDO_STEPS_def)
next
  have "length (undoHistory (run initialState es)) \<le> MAX_UNDO_STEPS"
    by (rule run_history_bounded) (simp add: initialState_def)
  then show "length (undoHistory (run initialState es)) \<le> 10"
    by (simp add: MAX_UNDO_STEPS_def)
qed

theorem undo_history_keeps_ten_most_recent_witness:
  "MAX_UNDO_STEPS < length elevenImages
   \<and> length (pushAll [sampleImage ''old''] elevenImages) = 10
   \<and> pushAll [sampleImage ''old''] elevenImages = take 10 (rev elevenImages)
   \<and> hd (pushAll [sampleImage ''old''] elevenImages) = sampleImage ''10''
   \<and> last (pushAll [sampleImage ''old''] elevenImages) = sampleImage ''01''"
  using undo_history_keeps_ten_most_recent [of elevenImages "[sampleImage ''old'']" "[]"]
  by (simp add: MAX_UNDO_STEPS_def elevenImages_def)

text \<open>
  C10. Pushing an absent image leaves the history as it was. So setting the base image
  while none is present adds no entry, and after the very first upload the history is
  still empty.
\<close>

theorem push_absent_image_is_noop:
  "addImageToUndoHistory None h = h
   \<and> (inputImage s = None \<longrightarrow> undoHistory (handleSetInputImage file s) = undoHistory s)
   \<and> length (undoHistory (snd (handleImageUpload file (t, initialState)))) = 0"
  by (simp add: addImageToUndoHistory_def handleSetInputImage_def handleImageUpload_def
      initialState_def)

theorem push_absent_image_is_noop_witness:
  "inputImage (initialState\<lparr>undoHistory := [sampleImage ''old'']\<rparr>) = None
   \<and> undoHistory (handleSetInputImage (Some (sampleImage ''new''))
        (initialState\<lparr>undoHistory := [sampleImage ''old'']\<rparr>)) = [sampleImage ''old'']"
  using push_absent_image_is_noop
    [of "[]" "initialState\<lparr>undoHistory := [sampleImage ''old'']\<rparr>" "Some (sampleImage ''new'')"]
  by (simp add: initialState_def)

text \<open>
  C3, as the code has it. Setting the base image in Enhance, to a new image or to
  none, pushes the image that is about to go, when there is one, onto the history (the
  oldest entry leaves beyond ten), sets the base image to the given value and clears
  the overlay.
\<close>

theorem set_base_image_pushes_current:
  "inputImage app = Some cur \<longrightarrow>
     undoHistory (snd (handleImageUpload file (t, app))) = take 10 (cur # undoHistory app)
     \<and> inputImage (snd (handleImageUpload file (t, app))) = file
     \<and> overlayImage (snd (handleImageUpload file (t, app))) = None"
  by (simp add: handleImageUpload_def handleSetInputImage_def addImage_Some MAX_UNDO_STEPS_def)

theorem set_base_image_pushes_current_witness:
  "inputImage fullHistoryState = Some (sampleImage ''QkFTRQ=='')
   \<and> undoHistory (snd (handleImageUpload (Some (sampleImage ''TkVX'')) (initialTab, fullHistoryState)))
       = sampleImage ''QkFTRQ=='' # take 9 elevenImages
   \<and> inputImage (snd (handleImageUpload (Some (sampleImage ''TkVX'')) (initialTab, fullHistoryState)))
       = Some (sampleImage ''TkVX'')
   \<and> overlayImage (snd (handleImageUpload (Some (sampleImage ''TkVX'')) (initialTab, fullHistoryState)))
       = None"
  using set_base_image_pushes_current
    [of fullHistoryState "sampleImage ''QkFTRQ==''" "Some (sampleImage ''TkVX'')" initialTab]
  by (simp add: fullHistoryState_def initialState_def elevenImages_def)

text \<open>
  C3 as stated fails: removing the base image (setting it to none) while an image is
  present does push that image onto the history.
\<close>

theorem remove_base_image_pushes_counterexample:
  "undoHistory (initialState\<lparr>inputImage := Some (sampleImage ''QkFTRQ=='')\<rparr>) = []
   \<and> undoHistory (snd (handleImageUpload None
        (initialTab, initialState\<lparr>inputImage := Some (sampleImage ''QkFTRQ=='')\<rparr>)))
      = [sampleImage ''QkFTRQ=='']"
  by (simp add: handleImageUpload_def handleSetInputImage_def addImage_Some initialState_def
      MAX_UNDO_STEPS_def)

text \<open>
  C9, as the code has it. With a stored result whose output image is not empty:
  sending a create-result to Enhance leaves the history empty whatever it held;
  continuing to edit pushes the current base image, so the history has one entry more
  up to the bound of ten (the oldest entry leaves at capacity), and is unchanged when no
  base image is present; both make the result's output image the base image and clear
  the overlay.
\<close>

theorem send_and_continue_history:
  "generatedOutput s = Some g \<longrightarrow> g_outputImage g \<noteq> [] \<longrightarrow>
     (g_type g = TypeCreate \<longrightarrow>
        undoHistory (handleSendToEnhance s) = []
        \<and> inputImage (handleSendToEnhance s) =
            Some \<lparr>base64 = g_outputImage g, mimeType = ''image/png'',
                  name = ''generated-image.png''\<rparr>
        \<and> overlayImage (handleSendToEnhance s) = None)
     \<and> (inputImage s = Some cur \<longrightarrow>
          undoHistory (handleContinueEditing s) = take 10 (cur # undoHistory s)
          \<and> length (undoHistory (handleContinueEditing s)) = min 10 (length (undoHistory s) + 1))
     \<and> (inputImage s = None \<longrightarrow> undoHistory (handleContinueEditing s) = undoHistory s)
     \<and> inputImage (handleContinueEditing s) =
         Some \<lparr>base64 = g_outputImage g, mimeType = ''image/png'',
               name = ''edited-result.png''\<rparr>
     \<and> overlayImage (handleContinueEditing s) = None"
  by (simp add: handleSendToEnhance_def handleContinueEditing_def addImage_Some
      addImage_None MAX_UNDO_STEPS_def min.commute)

theorem send_and_continue_history_witness:
  "generatedOutput (fullHistoryState\<lparr>generatedOutput := Some (sampleResult TypeCreate)\<rparr>)
     = Some (sampleResult TypeCreate)
   \<and> g_outputImage (sampleResult TypeCreate) \<noteq> []
   \<and> g_type (sampleResult TypeCreate) = TypeCreate
   \<and> inputImage (fullHistoryState\<lparr>generatedOutput := Some (sampleResult TypeCreate)\<rparr>)
       = Some (sampleImage ''QkFTRQ=='')
   \<and> undoHistory (handleSendToEnhance
        (fullHistoryState\<lparr>generatedOutput := Some (sampleResult TypeCreate)\<rparr>)) = []
   \<and> length (undoHistory (handleContinueEditing
        (fullHistoryState\<lparr>generatedOutput := Some (sampleResult TypeCreate)\<rparr>))) = 10"
  using send_and_continue_history
    [of "fullHistoryState\<lparr>generatedOutput := Some (sampleResult TypeCreate)\<rparr>"
        "sampleResult TypeCreate" "sampleImage ''QkFTRQ==''"]
  by (simp add: fullHistoryState_def initialState_def sampleResult_def elevenImages_def)

text \<open>
  C9 as stated fails at capacity: continuing to edit with ten entries in the history
  leaves ten entries, not eleven.
\<close>

theorem continue_editing_at_capacity_counterexample:
  "g_type (sampleResult TypeEnhance) = TypeEnhance
   \<and> generatedOutput fullHistoryState = Some (sampleResult TypeEnhance)
   \<and> length (undoHistory fullHistoryState) = 10
   \<and> length (undoHistory (handleContinueEditing fullHistoryState)) = 10"
  by (simp add: handleContinueEditing_def addImage_Some MAX_UNDO_STEPS_def
      fullHistoryState_def initialState_def sampleResult_def elevenImages_def)

section \<open>Retry with backoff: the default schedule\<close>

lemma withRetry_three_attempts:
  assumes "fn w0 = (Inl e1, w1)" and "fn w1 = (Inl e2, w2)" and "fn w2 = (r, w3)"
  shows "withRetry exceeded fn 3 1000 w0 = (r, w3, [Attempt, Wait 1000, Attempt, Wait 2000, Attempt])"
proof -
  have third: "withRetry_loop exceeded fn 3 1000 (Suc (Suc 0)) w2 = (r, w3, [Attempt])"
    by (subst withRetry_loop.simps, cases r) (simp_all add: assms(3))
  have second:
    "withRetry_loop exceeded fn 3 1000 (Suc 0) w1 = (r, w3, [Attempt, Wait 2000, Attempt])"
    by (subst withRetry_loop.simps) (simp add: assms(2) third Let_def)
  show ?thesis
    unfolding withRetry_def
    by (subst withRetry_loop.simps) (simp add: assms(1) second Let_def)
qed

text \<open>
  C4. With the default parameters, in both services: when the operation throws twice
  and then returns, the wrapper returns that value after three invocations, with waits
  of 1000 ms and 2000 ms between them and no other; when the operation throws three
  times running, the wrapper throws the third error itself, after exactly three
  invocations and the same two waits.
\<close>

theorem withRetry_default_schedule:
  "(fn w0 = (Inl e1, w1) \<and> fn w1 = (Inl e2, w2) \<and> fn w2 = (Inr v, w3) \<longrightarrow>
      gemini_withRetry fn w0 = (Inr v, w3, [Attempt, Wait 1000, Attempt, Wait 2000, Attempt])
      \<and> openai_withRetry fn w0 = (Inr v, w3, [Attempt, Wait 1000, Attempt, Wait 2000, Attempt]))
   \<and> (fn w0 = (Inl e1, w1) \<and> fn w1 = (Inl e2, w2) \<and> fn w2 = (Inl e3, w3) \<longrightarrow>
      gemini_withRetry fn w0 = (Inl e3, w3, [Attempt, Wait 1000, Attempt, Wait 2000, Attempt])
      \<and> openai_withRetry fn w0 = (Inl e3, w3, [Attempt, Wait 1000, Attempt, Wait 2000, Attempt]))"
  unfolding gemini_withRetry_def openai_withRetry_def
  by (intro conjI impI; elim conjE; rule withRetry_three_attempts; assumption)

theorem withRetry_default_schedule_witness:
  "(failsFirst 2 0 = (Inl (Error ''first failure''), 1)
    \<and> failsFirst 2 1 = (Inl (Error ''second failure''), 2)
    \<and> failsFirst 2 2 = (Inr 42, 3))
   \<and> gemini_withRetry (failsFirst 2) 0 = (Inr 42, 3, [Attempt, Wait 1000, Attempt, Wait 2000, Attempt])
   \<and> (failsFirst 5 0 = (Inl (Error ''first failure''), 1)
    \<and> failsFirst 5 1 = (Inl (Error ''second failure''), 2)
    \<and> failsFirst 5 2 = (Inl (Error ''later failure''), 3))
   \<and> openai_withRetry (failsFirst 5) 0 =
       (Inl (Error ''later failure''), 3, [Attempt, Wait 1000, Attempt, Wait 2000, Attempt])"
  using withRetry_default_schedule
          [of "failsFirst 2" 0 "Error ''first failure''" 1 "Error ''second failure''" 2 42 3]
        withRetry_default_schedule
          [of "failsFirst 5" 0 "Error ''first failure''" 1 "Error ''second failure''" 2 42 3
              "Error ''later failure''"]
  by (simp add: failsFirst_def)

section \<open>Providers: credentials, requests, fallbacks\<close>

lemma withRetry_first_success:
  assumes "fn w = (Inr v, w')" and "0 < retries"
  shows "withRetry exceeded fn retries d w = (Inr v, w', [Attempt])"
  unfolding withRetry_def
  by (subst withRetry_loop.simps) (simp add: assms)







lemma trySuggestions_unparseable:
  assumes "\<not> parsesToSuggestions jsonParse txt"
  shows "trySuggestions jsonParse txt \<in> {Inl SyntaxError, Inl TypeError, Inr [JString (trim txt)]}"
  using assms
  by (auto simp add: parsesToSuggestions_def trySuggestions_def
      split: option.splits json.splits)




lemma intensityQualifier_50:
  "intensityQualifier (Some 50) = '' The modification intensity should be around 50%.''"
  by (simp add: intensityQualifier_def showNat.simps digitChar_def)

lemma openai_missing_content_throws:
  "openai_parseSuggestions jsonParse None = Inl TypeError"
  by (simp add: openai_parseSuggestions_def)

lemma trim_removes_nbsp:
  "trim [CHR 0xA0, CHR ''a'', CHR '' '', CHR ''b'', CHR 0x0A, CHR 0xA0] = ''a b''"
  by (simp add: trim_def isWhiteSpace_def)

lemma gemini_missing_text_throws:
  "responseText response = None \<Longrightarrow> gemini_parseSuggestions jsonParse response = Inl TypeError"
  by (simp add: gemini_parseSuggestions_def)

lemma gemini_parse_unparseable:
  assumes "responseText response = Some txt" and "\<not> parsesToSuggestions jsonParse txt"
  shows "gemini_parseSuggestions jsonParse response = Inr [JString (trim txt)]"
  using trySuggestions_unparseable [OF assms(2)] assms(1)
  by (auto simp add: gemini_parseSuggestions_def)

lemma openai_parse_unparseable:
  assumes "\<not> parsesToSuggestions jsonParse txt"
  shows "openai_parseSuggestions jsonParse (Some txt) = Inr [JString (trim txt)]"
  using trySuggestions_unparseable [OF assms]
  by (auto simp add: openai_parseSuggestions_def)

text \<open>
  C8, as the code has it. Whenever the remote call of a refinement, after whatever
  attempts and waits, yields a response that carries a text, and that text cannot be
  parsed into a suggestions list, the operation does not throw: in both services it
  returns the one-element list of that text with the white space at its ends trimmed
  off. (For OpenAI the text is the content of the first choice of an \<^verbatim>\<open>ok\<close> response.)
\<close>

theorem refine_falls_back_to_trimmed_text:
  "\<not> parsesToSuggestions jsonParse txt \<longrightarrow>
     (gemini_withRetry
        (generateContent (gemini_API_KEY env) (gemini_refineRequest prompt styleContext)) w
        = (Inr gresponse, w', events)
      \<and> responseText gresponse = Some txt \<longrightarrow>
        gemini_refineTextPrompt jsonParse generateContent env prompt styleContext w
          = (Inr [JString (trim txt)], w', events))
     \<and> (getOpenAiApiKey env \<noteq> []
        \<and> openai_withRetry
            (fetch (openai_refineRequest (getOpenAiApiKey env) prompt styleContext)) w
            = (Inr hresponse, w', events)
        \<and> ok hresponse \<and> jsonBody hresponse = Some parsed
        \<and> j_choices parsed = Some (Some txt # others) \<longrightarrow>
        openai_refineTextPrompt jsonParse fetch env prompt styleContext w
          = (Inr [JString (trim txt)], w', events))"
proof (intro impI conjI; (elim conjE)?)
  assume bad: "\<not> parsesToSuggestions jsonParse txt"
    and call: "gemini_withRetry
        (generateContent (gemini_API_KEY env) (gemini_refineRequest prompt styleContext)) w
        = (Inr gresponse, w', events)"
    and rtext: "responseText gresponse = Some txt"
  have "gemini_parseSuggestions jsonParse gresponse = Inr [JString (trim txt)]"
    using rtext bad by (rule gemini_parse_unparseable)
  with call show "gemini_refineTextPrompt jsonParse generateContent env prompt styleContext w
          = (Inr [JString (trim txt)], w', events)"
    by (simp add: gemini_refineTextPrompt_def)
next
  assume bad: "\<not> parsesToSuggestions jsonParse txt"
    and key: "getOpenAiApiKey env \<noteq> []"
    and call: "openai_withRetry
            (fetch (openai_refineRequest (getOpenAiApiKey env) prompt styleContext)) w
            = (Inr hresponse, w', events)"
    and resp: "ok hresponse" "jsonBody hresponse = Some parsed"
      "j_choices parsed = Some (Some txt # others)"
  have "openai_refineResult jsonParse hresponse = Inr [JString (trim txt)]"
    using resp openai_parse_unparseable [OF bad]
    by (simp add: openai_refineResult_def)
  with call key show "openai_refineTextPrompt jsonParse fetch env prompt styleContext w
          = (Inr [JString (trim txt)], w', events)"
    by (simp add: openai_refineTextPrompt_def Let_def)
qed

theorem refine_falls_back_to_trimmed_text_witness:
  "\<not> parsesToSuggestions sampleParse '' Sorry, no suggestions today. ''
   \<and> gemini_withRetry
        (flakyGenerateContent (Some '' Sorry, no suggestions today. '')
           (gemini_API_KEY (Some ''test-key''))
           (gemini_refineRequest ''a glass pavilion'' ''No predefined style'')) 0
       = (Inr \<lparr>responseText = Some '' Sorry, no suggestions today. '',
                firstPart = Some (InlineData ''UkVTVUxU'' ''image/png'')\<rparr>,
          3, [Attempt, Wait 1000, Attempt, Wait 2000, Attempt])
   \<and> gemini_refineTextPrompt sampleParse
        (flakyGenerateContent (Some '' Sorry, no suggestions today. '')) (Some ''test-key'')
        ''a glass pavilion'' ''No predefined style'' 0
       = (Inr [JString ''Sorry, no suggestions today.''], 3,
          [Attempt, Wait 1000, Attempt, Wait 2000, Attempt])
   \<and> getOpenAiApiKey (Some ''test-key'') \<noteq> []
   \<and> openai_refineTextPrompt sampleParse
        (flakyFetch (Some '' Sorry, no suggestions today. '')) (Some ''test-key'')
        ''a glass pavilion'' ''No predefined style'' 0
       = (Inr [JString ''Sorry, no suggestions today.''], 3,
          [Attempt, Wait 1000, Attempt, Wait 2000, Attempt])"
proof -
  let ?txt = "'' Sorry, no suggestions today. ''"
  let ?g = "\<lparr>responseText = Some ?txt,
             firstPart = Some (InlineData ''UkVTVUxU'' ''image/png'')\<rparr>"
  let ?parsed = "\<lparr>j_errorMessage = None, j_choices = Some [Some ?txt],
                  j_data = Some [Some ''UkVTVUxU'']\<rparr>"
  let ?h = "\<lparr>ok = True, statusText = ''OK'', jsonBody = Some ?parsed\<rparr>"
  have p: "\<not> parsesToSuggestions sampleParse ?txt"
    by (simp add: parsesToSuggestions_def sampleParse_def)
  have keys: "gemini_API_KEY (Some ''test-key'') = ''test-key''"
    "getOpenAiApiKey (Some ''test-key'') = ''test-key''"
    by (simp_all add: gemini_API_KEY_def getOpenAiApiKey_def)
  have g: "gemini_withRetry
        (flakyGenerateContent (Some ?txt) (gemini_API_KEY (Some ''test-key''))
           (gemini_refineRequest ''a glass pavilion'' ''No predefined style'')) 0
       = (Inr ?g, 3, [Attempt, Wait 1000, Attempt, Wait 2000, Attempt])"
    unfolding gemini_withRetry_def
    by (rule withRetry_three_attempts [where ?w1.0 = 1 and ?w2.0 = 2])
       (simp_all add: flakyGenerateContent_def)
  have h: "openai_withRetry
        (flakyFetch (Some ?txt)
           (openai_refineRequest (getOpenAiApiKey (Some ''test-key''))
              ''a glass pavilion'' ''No predefined style'')) 0
       = (Inr ?h, 3, [Attempt, Wait 1000, Attempt, Wait 2000, Attempt])"
    unfolding openai_withRetry_def
    by (rule withRetry_three_attempts [where ?w1.0 = 1 and ?w2.0 = 2])
       (simp_all add: flakyFetch_def sampleFetch_def)
  have t: "trim ?txt = ''Sorry, no suggestions today.''"
    by (simp add: trim_def isWhiteSpace_def)
  from refine_falls_back_to_trimmed_text
    [of sampleParse ?txt "flakyGenerateContent (Some ?txt)" "Some ''test-key''"
        "''a glass pavilion''" "''No predefined style''" 0 ?g 3
        "[Attempt, Wait 1000, Attempt, Wait 2000, Attempt]"
        "flakyFetch (Some ?txt)" ?h ?parsed "[]"]
    p g h
  show ?thesis
    by (simp add: keys t)
qed

text \<open>
  C8 as stated fails: the element returned is the trimmed text, not the raw text of
  the response; and a response without any text (Gemini) or without any content
  (OpenAI) makes the operation throw a \<^verbatim>\<open>TypeError\<close>.
\<close>

theorem refine_fallback_not_raw_counterexample:
  "\<not> parsesToSuggestions sampleParse '' Sorry, no suggestions today. ''
   \<and> fst (gemini_refineTextPrompt sampleParse sampleGenerateContent (Some ''test-key'')
        ''a glass pavilion'' ''No predefined style'' 0)
       = Inr [JString ''Sorry, no suggestions today.'']
   \<and> fst (gemini_refineTextPrompt sampleParse sampleGenerateContent (Some ''test-key'')
        ''a glass pavilion'' ''No predefined style'' 0)
       \<noteq> Inr [JString '' Sorry, no suggestions today. '']
   \<and> fst (openai_refineTextPrompt sampleParse (sampleFetch None) (Some ''test-key'')
        ''a glass pavilion'' ''No predefined style'' 0)
       = Inl TypeError
   \<and> fst (gemini_refineTextPrompt sampleParse (flakyGenerateContent None) (Some ''test-key'')
        ''a glass pavilion'' ''No predefined style'' 0)
       = Inl TypeError"
proof -
  have g: "gemini_withRetry
          (sampleGenerateContent ''test-key''
             (gemini_refineRequest ''a glass pavilion'' ''No predefined style'')) 0
        = (Inr \<lparr>responseText = Some '' Sorry, no suggestions today. '',
                 firstPart = Some (InlineData ''UkVTVUxU'' ''image/png'')\<rparr>, 1, [Attempt])"
    unfolding gemini_withRetry_def
    by (rule withRetry_first_success) (simp_all add: sampleGenerateContent_def)
  have n: "gemini_withRetry
          (flakyGenerateContent None ''test-key''
             (gemini_refineRequest ''a glass pavilion'' ''No predefined style'')) 0
        = (Inr \<lparr>responseText = None,
                 firstPart = Some (InlineData ''UkVTVUxU'' ''image/png'')\<rparr>, 3,
           [Attempt, Wait 1000, Attempt, Wait 2000, Attempt])"
    unfolding gemini_withRetry_def
    by (rule withRetry_three_attempts [where ?w1.0 = 1 and ?w2.0 = 2])
       (simp_all add: flakyGenerateContent_def)
  have o: "openai_withRetry
          (sampleFetch None
             (openai_refineRequest ''test-key'' ''a glass pavilion'' ''No predefined style'')) 0
        = (Inr \<lparr>ok = True, statusText = ''OK'',
                 jsonBody = Some \<lparr>j_errorMessage = None, j_choices = Some [None],
                                  j_data = Some [Some ''UkVTVUxU'']\<rparr>\<rparr>, 1, [Attempt])"
    unfolding openai_withRetry_def
    by (rule withRetry_first_success) (simp_all add: sampleFetch_def)
  have p: "\<not> parsesToSuggestions sampleParse '' Sorry, no suggestions today. ''"
    by (simp add: parsesToSuggestions_def sampleParse_def)
  have t: "trim '' Sorry, no suggestions today. '' = ''Sorry, no suggestions today.''"
    by (simp add: trim_def isWhiteSpace_def)
  have gr: "fst (gemini_refineTextPrompt sampleParse sampleGenerateContent (Some ''test-key'')
        ''a glass pavilion'' ''No predefined style'' 0)
       = Inr [JString ''Sorry, no suggestions today.'']"
    using gemini_parse_unparseable [of
        "\<lparr>responseText = Some '' Sorry, no suggestions today. '',
          firstPart = Some (InlineData ''UkVTVUxU'' ''image/png'')\<rparr>"
        "'' Sorry, no suggestions today. ''" sampleParse] p
    by (simp add: gemini_refineTextPrompt_def gemini_API_KEY_def g t)
  have gn: "fst (gemini_refineTextPrompt sampleParse (flakyGenerateContent None) (Some ''test-key'')
        ''a glass pavilion'' ''No predefined style'' 0)
       = Inl TypeError"
    by (simp add: gemini_refineTextPrompt_def gemini_API_KEY_def n gemini_missing_text_throws)
  have orr: "fst (openai_refineTextPrompt sampleParse (sampleFetch None) (Some ''test-key'')
        ''a glass pavilion'' ''No predefined style'' 0)
       = Inl TypeError"
    by (simp add: openai_refineTextPrompt_def getOpenAiApiKey_def o openai_refineResult_def
        openai_missing_content_throws)
  show ?thesis
    using p orr gn unfolding gr by simp
qed

text \<open>
  C5, as the code has it. Without a mask, the Gemini variant builds a general edit
  request: its parts carry the base image and the overlay when there is one, and end
  with the instruction text, which quotes the prompt and, for an intensity other than
  0, goes on with \<open>The modification intensity should be around N%.\<close> The OpenAI
  variant builds no request without a mask: the operation throws, with no invocation of
  \<open>fetch\<close> and the world untouched.
\<close>

theorem edit_request_without_mask:
  \<open>set (map fileToGenerativePart (baseImage # (case overlay of None \<Rightarrow> [] | Some ov \<Rightarrow> [ov])))
     \<subseteq> set (gemini_editParts baseImage prompt overlay strength None)
   \<and> last (gemini_editParts baseImage prompt overlay strength None)
       = TextPart (''Editing instructions: "'' @ prompt @ ''".''
                   @ (case strength of
                        None \<Rightarrow> []
                      | Some n \<Rightarrow>
                          if n = 0 then []
                          else '' The modification intensity should be around '' @ showNat n @ ''%.''))
   \<and> contents (gemini_editRequest baseImage prompt overlay strength None)
       = Parts (gemini_editParts baseImage prompt overlay strength None)
   \<and> (\<exists>e. openai_editImage atob fetch env baseImage prompt overlay strength None w
            = (Inl e, w, []))\<close>
  by (cases overlay)
     (simp_all add: gemini_editParts_def gemini_editRequest_def intensityQualifier_def
        openai_editImage_def Let_def)

theorem edit_request_without_mask_witness:
  \<open>gemini_editParts (sampleImage ''QkFTRQ=='') ''make the walls white''
       (Some (sampleImage ''T1ZFUg=='')) (Some 50) None
     = [TextPart ''You are an expert image editor. Edit the following image based on the text prompt.'',
        InlineData ''QkFTRQ=='' ''image/png'',
        TextPart ''Integrate this overlay object into the scene, following the text instructions.'',
        InlineData ''T1ZFUg=='' ''image/png'',
        TextPart ''Editing instructions: "make the walls white". The modification intensity should be around 50%.'']
   \<and> last (gemini_editParts (sampleImage ''QkFTRQ=='') ''make the walls white''
        (Some (sampleImage ''T1ZFUg=='')) (Some 50) None)
       = TextPart ''Editing instructions: "make the walls white". The modification intensity should be around 50%.''
   \<and> openai_editImage Some (sampleFetch None) (Some ''test-key'') (sampleImage ''QkFTRQ=='')
        ''make the walls white'' (Some (sampleImage ''T1ZFUg=='')) (Some 50) None 0
       = (Inl (Error ''Overlay images are not supported by the OpenAI provider. Please remove the overlay image and try again.''),
          0, [])\<close>
  using edit_request_without_mask
    [of "sampleImage ''QkFTRQ==''" "Some (sampleImage ''T1ZFUg=='')" "''make the walls white''"
        "Some 50" Some "sampleFetch None" "Some ''test-key''" 0]
  by (simp add: gemini_editParts_def fileToGenerativePart_def sampleImage_def showNat.simps
      digitChar_def openai_editImage_def getOpenAiApiKey_def)

text \<open>
  C5 as stated fails for the OpenAI variant: with a key, no overlay and no mask, it
  builds no edit request and throws.
\<close>

theorem openai_edit_without_mask_counterexample:
  "openai_editImage Some (sampleFetch None) (Some ''test-key'') (sampleImage ''QkFTRQ=='')
     ''make the walls white'' None (Some 50) None 0
   = (Inl (Error ''The OpenAI provider requires a mask for image editing. Please use the 'Guided Edit' mode, draw on the image to create a mask, and provide instructions.''),
      0, [])"
  by (simp add: openai_editImage_def getOpenAiApiKey_def)

section \<open>Submitting from the Enhance tab\<close>

lemma showNat_100: "showNat 100 = ''100''"
  by (simp add: showNat.simps digitChar_def)

lemma handleProcess_enhancement:
  "mode t = ModeEnhance \<Longrightarrow> inputImage app = Some img \<Longrightarrow>
   map_of ENHANCE_STYLE_OPTIONS (enhanceStyle t) = Some description \<Longrightarrow>
     handleProcess encodePng maskContext app t
       = Some \<lparr>c_prompt = Some description, c_style = enhanceStyle t, c_intensity = 100,
               c_overlay = None, c_mask = None\<rparr>"
  by (simp add: handleProcess_def)

lemma gemini_edit_enhancement_parts:
  \<open>gemini_editParts img description None (Some 100) None
     = [TextPart ''You are an expert image editor. Edit the following image based on the text prompt.'',
        InlineData (base64 img) (mimeType img),
        TextPart (''Editing instructions: "'' @ description
                  @ ''". The modification intensity should be around 100%.'')]\<close>
  by (simp add: gemini_editParts_def fileToGenerativePart_def intensityQualifier_def showNat_100)

lemma openai_edit_enhancement:
  "openai_editImage atob fetch env img description None (Some 100) None w
     = (Inl (if getOpenAiApiKey env = [] then notConfigured
             else Error ''The OpenAI provider requires a mask for image editing. Please use the 'Guided Edit' mode, draw on the image to create a mask, and provide instructions.''),
        w, [])"
  by (simp add: openai_editImage_def Let_def)

text \<open>
  C7, as the code has it. On a submit in enhancement mode with a base image present
  and a user signed in, the tab calls \<^verbatim>\<open>onProcess\<close> with the table's description of the
  selected style as the prompt, intensity 100, no mask and no overlay, whatever the
  current overlay is. With Gemini active, the request that goes to the remote call is
  built from exactly these: an introduction, the base image, and the text that quotes
  the description and ends with \<open>The modification intensity should be around 100%.\<close>;
  a returned image is stored as the result with that prompt, intensity 100, no overlay
  and no mask, and a failure is shown as the error. With OpenAI active no request is
  built: the operation throws before any \<open>fetch\<close>, and its message (a mask is required,
  or the key is not configured) is shown as the error.
\<close>

theorem enhancement_submit_builds_request:
  \<open>mode t = ModeEnhance \<longrightarrow> inputImage app = Some img \<longrightarrow>
   map_of ENHANCE_STYLE_OPTIONS (enhanceStyle t) = Some description \<longrightarrow>
   auth P \<longrightarrow> currentUser app = Some user \<longrightarrow>
     handleProcess encodePng maskContext app t
       = Some \<lparr>c_prompt = Some description, c_style = enhanceStyle t, c_intensity = 100,
               c_overlay = None, c_mask = None\<rparr>
     \<and> (aiProvider app = Gemini \<longrightarrow>
          handleEnhanceProcess P description (enhanceStyle t) 100 None None app w
          = (case gemini_withRetry
                    (p_generateContent P (gemini_API_KEY (API_KEY_env P))
                       \<lparr>model = ''gemini-2.5-flash-image'',
                        contents = Parts
                          [TextPart ''You are an expert image editor. Edit the following image based on the text prompt.'',
                           InlineData (base64 img) (mimeType img),
                           TextPart (''Editing instructions: "'' @ description
                                     @ ''". The modification intensity should be around 100%.'')],
                        config = ImageModality\<rparr>) w of
               (Inl e, w', events) \<Rightarrow>
                 (app\<lparr>isLoading := False, error := Some (errorMessage P e)\<rparr>, w', events)
             | (Inr response, w', events) \<Rightarrow>
                 (case gemini_imageData response of
                    Inl e \<Rightarrow>
                      (app\<lparr>isLoading := False, error := Some (errorMessage P e)\<rparr>, w', events)
                  | Inr outputImage \<Rightarrow>
                      (app\<lparr>isLoading := False, error := None,
                           generatedOutput := Some
                             \<lparr>g_type = TypeEnhance, g_prompt = description,
                              g_style = enhanceStyle t, g_resolution = None,
                              g_inputImage = Some (base64 img), g_outputImage = outputImage,
                              g_overlayImage = None, g_maskImage = None,
                              g_intensity = Some 100\<rparr>,
                           isResultModalOpen := True\<rparr>, w', events))))
     \<and> (aiProvider app = OpenAI \<longrightarrow>
          handleEnhanceProcess P description (enhanceStyle t) 100 None None app w
          = (app\<lparr>isLoading := False,
                 error := Some
                   (if getOpenAiApiKey (OPENAI_API_KEY_env P) = []
                    then ''OpenAI API key is not configured.''
                    else ''The OpenAI provider requires a mask for image editing. Please use the 'Guided Edit' mode, draw on the image to create a mask, and provide instructions.'')\<rparr>,
             w, []))\<close>
proof (intro impI conjI)
  assume enh: "mode t = ModeEnhance" and img: "inputImage app = Some img"
    and style: "map_of ENHANCE_STYLE_OPTIONS (enhanceStyle t) = Some description"
  show "handleProcess encodePng maskContext app t
       = Some \<lparr>c_prompt = Some description, c_style = enhanceStyle t, c_intensity = 100,
               c_overlay = None, c_mask = None\<rparr>"
    using enh img style by (rule handleProcess_enhancement)
next
  assume img: "inputImage app = Some img" and auth: "auth P"
    and user: "currentUser app = Some user" and prov: "aiProvider app = Gemini"
  show \<open>handleEnhanceProcess P description (enhanceStyle t) 100 None None app w
          = (case gemini_withRetry
                    (p_generateContent P (gemini_API_KEY (API_KEY_env P))
                       \<lparr>model = ''gemini-2.5-flash-image'',
                        contents = Parts
                          [TextPart ''You are an expert image editor. Edit the following image based on the text prompt.'',
                           InlineData (base64 img) (mimeType img),
                           TextPart (''Editing instructions: "'' @ description
                                     @ ''". The modification intensity should be around 100%.'')],
                        config = ImageModality\<rparr>) w of
               (Inl e, w', events) \<Rightarrow>
                 (app\<lparr>isLoading := False, error := Some (errorMessage P e)\<rparr>, w', events)
             | (Inr response, w', events) \<Rightarrow>
                 (case gemini_imageData response of
                    Inl e \<Rightarrow>
                      (app\<lparr>isLoading := False, error := Some (errorMessage P e)\<rparr>, w', events)
                  | Inr outputImage \<Rightarrow>
                      (app\<lparr>isLoading := False, error := None,
                           generatedOutput := Some
                             \<lparr>g_type = TypeEnhance, g_prompt = description,
                              g_style = enhanceStyle t, g_resolution = None,
                              g_inputImage = Some (base64 img), g_outputImage = outputImage,
                              g_overlayImage = None, g_maskImage = None,
                              g_intensity = Some 100\<rparr>,
                           isResultModalOpen := True\<rparr>, w', events)))\<close>
    using img auth user prov
    by (simp add: handleEnhanceProcess_def handleApiCall_def gemini_editImage_def
        gemini_editRequest_def gemini_edit_enhancement_parts enhanceSucceeded_def
        split: prod.splits sum.splits)
next
  assume img: "inputImage app = Some img" and auth: "auth P"
    and user: "currentUser app = Some user" and prov: "aiProvider app = OpenAI"
  show "handleEnhanceProcess P description (enhanceStyle t) 100 None None app w
          = (app\<lparr>isLoading := False,
                 error := Some
                   (if getOpenAiApiKey (OPENAI_API_KEY_env P) = []
                    then ''OpenAI API key is not configured.''
                    else ''The OpenAI provider requires a mask for image editing. Please use the 'Guided Edit' mode, draw on the image to create a mask, and provide instructions.'')\<rparr>,
             w, [])"
    using img auth user prov
    by (simp add: handleEnhanceProcess_def handleApiCall_def openai_edit_enhancement
        errorMessage_def notConfigured_def)
qed

theorem enhancement_submit_builds_request_witness:
  \<open>mode initialTab = ModeEnhance
   \<and> inputImage enhanceSession = Some (sampleImage ''QkFTRQ=='')
   \<and> overlayImage enhanceSession = Some (sampleImage ''T1ZFUg=='')
   \<and> map_of ENHANCE_STYLE_OPTIONS (enhanceStyle initialTab)
       = Some ''Apply standard photorealistic clarity and sharpness.''
   \<and> auth recordingPlatform \<and> currentUser enhanceSession = Some ''user-1''
   \<and> aiProvider enhanceSession = Gemini
   \<and> handleProcess (\<lambda>c. ''TUFTSw=='') True enhanceSession initialTab
       = Some \<lparr>c_prompt = Some ''Apply standard photorealistic clarity and sharpness.'',
               c_style = ''Standard Clarity'', c_intensity = 100,
               c_overlay = None, c_mask = None\<rparr>
   \<and> handleEnhanceProcess recordingPlatform
        ''Apply standard photorealistic clarity and sharpness.'' ''Standard Clarity'' 100
        None None enhanceSession []
       = (enhanceSession
            \<lparr>generatedOutput := Some
               \<lparr>g_type = TypeEnhance,
                g_prompt = ''Apply standard photorealistic clarity and sharpness.'',
                g_style = ''Standard Clarity'', g_resolution = None,
                g_inputImage = Some ''QkFTRQ=='', g_outputImage = ''UkVTVUxU'',
                g_overlayImage = None, g_maskImage = None, g_intensity = Some 100\<rparr>,
             isResultModalOpen := True\<rparr>,
          [SentGemini
             \<lparr>model = ''gemini-2.5-flash-image'',
              contents = Parts
                [TextPart ''You are an expert image editor. Edit the following image based on the text prompt.'',
                 InlineData ''QkFTRQ=='' ''image/png'',
                 TextPart ''Editing instructions: "Apply standard photorealistic clarity and sharpness.". The modification intensity should be around 100%.''],
              config = ImageModality\<rparr>],
          [Attempt])
   \<and> aiProvider (enhanceSession\<lparr>aiProvider := OpenAI\<rparr>) = OpenAI
   \<and> handleEnhanceProcess (recordingPlatform\<lparr>OPENAI_API_KEY_env := None\<rparr>)
        ''Apply standard photorealistic clarity and sharpness.'' ''Standard Clarity'' 100
        None None (enhanceSession\<lparr>aiProvider := OpenAI\<rparr>) []
       = (enhanceSession
            \<lparr>aiProvider := OpenAI, error := Some ''OpenAI API key is not configured.''\<rparr>,
          [], [])\<close>
proof -
  let ?d = "''Apply standard photorealistic clarity and sharpness.''"
  let ?P2 = "recordingPlatform\<lparr>OPENAI_API_KEY_env := None\<rparr>"
  let ?s2 = "enhanceSession\<lparr>aiProvider := OpenAI\<rparr>"
  have facts2: "inputImage ?s2 = Some (sampleImage ''QkFTRQ=='')"
    "auth ?P2" "currentUser ?s2 = Some ''user-1''" "aiProvider ?s2 = OpenAI"
    by (simp_all add: enhanceSession_def fullHistoryState_def initialState_def
        recordingPlatform_def)
  have facts: "mode initialTab = ModeEnhance"
    "inputImage enhanceSession = Some (sampleImage ''QkFTRQ=='')"
    "overlayImage enhanceSession = Some (sampleImage ''T1ZFUg=='')"
    "map_of ENHANCE_STYLE_OPTIONS (enhanceStyle initialTab) = Some ?d"
    "auth recordingPlatform" "currentUser enhanceSession = Some ''user-1''"
    "aiProvider enhanceSession = Gemini"
    "enhanceStyle initialTab = ''Standard Clarity''"
    by (simp_all add: initialTab_def enhanceSession_def fullHistoryState_def initialState_def
        ENHANCE_STYLE_OPTIONS_def recordingPlatform_def)
  have sent: \<open>gemini_withRetry
        (p_generateContent recordingPlatform (gemini_API_KEY (API_KEY_env recordingPlatform))
           \<lparr>model = ''gemini-2.5-flash-image'',
            contents = Parts
              [TextPart ''You are an expert image editor. Edit the following image based on the text prompt.'',
               InlineData (base64 (sampleImage ''QkFTRQ=='')) (mimeType (sampleImage ''QkFTRQ=='')),
               TextPart (''Editing instructions: "'' @ ?d
                         @ ''". The modification intensity should be around 100%.'')],
            config = ImageModality\<rparr>) []
      = (Inr \<lparr>responseText = None,
               firstPart = Some (InlineData ''UkVTVUxU'' ''image/png'')\<rparr>,
         [SentGemini
            \<lparr>model = ''gemini-2.5-flash-image'',
             contents = Parts
               [TextPart ''You are an expert image editor. Edit the following image based on the text prompt.'',
                InlineData ''QkFTRQ=='' ''image/png'',
                TextPart ''Editing instructions: "Apply standard photorealistic clarity and sharpness.". The modification intensity should be around 100%.''],
             config = ImageModality\<rparr>],
         [Attempt])\<close>
    unfolding gemini_withRetry_def
    by (rule withRetry_first_success) (simp_all add: recordingPlatform_def sampleImage_def)
  note inst = enhancement_submit_builds_request
    [of initialTab enhanceSession "sampleImage ''QkFTRQ==''" ?d recordingPlatform "''user-1''"
        "\<lambda>c. ''TUFTSw==''" True "[]",
     rule_format, OF facts(1) facts(2) facts(4) facts(5) facts(6)]
  note gem = inst [THEN conjunct2, THEN conjunct1, rule_format, OF facts(7)]
  have submit: "handleProcess (\<lambda>c. ''TUFTSw=='') True enhanceSession initialTab
       = Some \<lparr>c_prompt = Some ?d, c_style = ''Standard Clarity'', c_intensity = 100,
               c_overlay = None, c_mask = None\<rparr>"
    using inst [THEN conjunct1] by (simp add: facts(8))
  have sending: \<open>handleEnhanceProcess recordingPlatform ?d ''Standard Clarity'' 100 None None
           enhanceSession []
       = (enhanceSession
            \<lparr>generatedOutput := Some
               \<lparr>g_type = TypeEnhance, g_prompt = ?d,
                g_style = ''Standard Clarity'', g_resolution = None,
                g_inputImage = Some ''QkFTRQ=='', g_outputImage = ''UkVTVUxU'',
                g_overlayImage = None, g_maskImage = None, g_intensity = Some 100\<rparr>,
             isResultModalOpen := True\<rparr>,
          [SentGemini
             \<lparr>model = ''gemini-2.5-flash-image'',
              contents = Parts
                [TextPart ''You are an expert image editor. Edit the following image based on the text prompt.'',
                 InlineData ''QkFTRQ=='' ''image/png'',
                 TextPart ''Editing instructions: "Apply standard photorealistic clarity and sharpness.". The modification intensity should be around 100%.''],
              config = ImageModality\<rparr>],
          [Attempt])\<close>
    using gem unfolding sent
    by (simp add: facts(8) gemini_imageData_def sampleImage_def enhanceSession_def
        fullHistoryState_def initialState_def)
  note inst2 = enhancement_submit_builds_request
    [of initialTab ?s2 "sampleImage ''QkFTRQ==''" ?d ?P2 "''user-1''"
        "\<lambda>c. ''TUFTSw==''" True "[]",
     rule_format, OF facts(1) facts2(1) facts(4) facts2(2) facts2(3)]
  have unconfigured: "handleEnhanceProcess ?P2 ?d ''Standard Clarity'' 100 None None ?s2 []
       = (enhanceSession
            \<lparr>aiProvider := OpenAI, error := Some ''OpenAI API key is not configured.''\<rparr>,
          [], [])"
    using inst2 [THEN conjunct2, THEN conjunct2, rule_format, OF facts2(4)]
    by (simp add: facts(8) getOpenAiApiKey_def recordingPlatform_def enhanceSession_def
        fullHistoryState_def initialState_def)
  from facts facts2(4) submit sending unconfigured show ?thesis by simp
qed

text \<open>
  C7 as stated fails with OpenAI active: the same submit builds no request; the
  operation throws before any \<open>fetch\<close>, nothing is sent, and the error is shown.
\<close>

theorem enhancement_submit_openai_counterexample:
  "mode initialTab = ModeEnhance
   \<and> inputImage (enhanceSession\<lparr>aiProvider := OpenAI\<rparr>) = Some (sampleImage ''QkFTRQ=='')
   \<and> handleProcess (\<lambda>c. ''TUFTSw=='') True (enhanceSession\<lparr>aiProvider := OpenAI\<rparr>) initialTab
       = Some \<lparr>c_prompt = Some ''Apply standard photorealistic clarity and sharpness.'',
               c_style = ''Standard Clarity'', c_intensity = 100,
               c_overlay = None, c_mask = None\<rparr>
   \<and> handleEnhanceProcess recordingPlatform
        ''Apply standard photorealistic clarity and sharpness.'' ''Standard Clarity'' 100
        None None (enhanceSession\<lparr>aiProvider := OpenAI\<rparr>) []
       = (enhanceSession
            \<lparr>aiProvider := OpenAI,
             error := Some ''The OpenAI provider requires a mask for image editing. Please use the 'Guided Edit' mode, draw on the image to create a mask, and provide instructions.''\<rparr>,
          [], [])"
  by (simp add: initialTab_def enhanceSession_def fullHistoryState_def initialState_def
      ENHANCE_STYLE_OPTIONS_def recordingPlatform_def handleProcess_def
      handleEnhanceProcess_def handleApiCall_def openai_editImage_def getOpenAiApiKey_def
      errorMessage_def)

section \<open>The binary mask\<close>

lemma positive_readByte:
  "i < length xs \<Longrightarrow> positive (readByte xs i) = (xs ! i \<noteq> 0)"
  by (simp add: positive_def readByte_def word_gt_0)

lemma isMaskEmpty_iff:
  "isMaskEmpty xs (4 * k + 3) = (\<forall>p\<ge>k. 4 * p + 3 < length xs \<longrightarrow> alphaAt xs p = 0)"
proof (induction "length xs - (4 * k + 3)" arbitrary: k rule: less_induct)
  case less
  show ?case
  proof (cases "4 * k + 3 < length xs")
    case False
    then have "\<forall>p\<ge>k. \<not> 4 * p + 3 < length xs" by auto
    with False show ?thesis by (subst isMaskEmpty.simps) simp
  next
    case inside: True
    show ?thesis
    proof (cases "alphaAt xs k = 0")
      case False
      with inside have "isMaskEmpty xs (4 * k + 3) = False"
        by (subst isMaskEmpty.simps) (simp add: positive_readByte alphaAt_def)
      moreover from False inside have "\<not> (\<forall>p\<ge>k. 4 * p + 3 < length xs \<longrightarrow> alphaAt xs p = 0)"
        by auto
      ultimately show ?thesis by simp
    next
      case zero: True
      have step: "isMaskEmpty xs (4 * k + 3) = isMaskEmpty xs (4 * Suc k + 3)"
        using inside zero
        by (subst isMaskEmpty.simps) (simp add: positive_readByte alphaAt_def add.commute)
      have ih: "isMaskEmpty xs (4 * Suc k + 3)
                 = (\<forall>p\<ge>Suc k. 4 * p + 3 < length xs \<longrightarrow> alphaAt xs p = 0)"
        using inside by (intro less) simp
      have "(\<forall>p\<ge>Suc k. 4 * p + 3 < length xs \<longrightarrow> alphaAt xs p = 0)
            = (\<forall>p\<ge>k. 4 * p + 3 < length xs \<longrightarrow> alphaAt xs p = 0)"
        using zero by (metis Suc_leI le_neq_implies_less Suc_leD)
      with step ih show ?thesis by simp
    qed
  qed
qed


lemma paintMask_spec:
  assumes "length xs = 4 * n" and "length data = 4 * n"
  shows "length (paintMask xs (4 * k) data) = 4 * n
         \<and> (\<forall>j<4 * k. paintMask xs (4 * k) data ! j = data ! j)
         \<and> (\<forall>p. k \<le> p \<and> p < n \<longrightarrow>
               pixelAt (paintMask xs (4 * k) data) p
                 = (if alphaAt xs p \<noteq> 0 then (255, 255, 255, 255) else (0, 0, 0, 255)))"
  using assms
proof (induction "n - k" arbitrary: k data rule: less_induct)
  case less
  show ?case
  proof (cases "k < n")
    case False
    with less.prems have "paintMask xs (4 * k) data = data"
      by (subst paintMask.simps) simp
    with False less.prems show ?thesis by auto
  next
    case True
    define v :: byte where "v = (if alphaAt xs k \<noteq> 0 then 255 else 0)"
    define data2 where "data2 = data[4 * k := v, 4 * k + 1 := v, 4 * k + 2 := v, 4 * k + 3 := 255]"
    have len2: "length data2 = 4 * n" by (simp add: data2_def less.prems)
    have step: "paintMask xs (4 * k) data = paintMask xs (4 * Suc k) data2"
      using True less.prems
      by (subst paintMask.simps)
         (simp add: positive_readByte alphaAt_def data2_def v_def Let_def add.commute)
    have ih: "length (paintMask xs (4 * Suc k) data2) = 4 * n
         \<and> (\<forall>j<4 * Suc k. paintMask xs (4 * Suc k) data2 ! j = data2 ! j)
         \<and> (\<forall>p. Suc k \<le> p \<and> p < n \<longrightarrow>
               pixelAt (paintMask xs (4 * Suc k) data2) p
                 = (if alphaAt xs p \<noteq> 0 then (255, 255, 255, 255) else (0, 0, 0, 255)))"
      using True by (intro less.hyps) (simp_all add: less.prems len2)
    have old: "\<forall>j<4 * k. data2 ! j = data ! j"
      by (simp add: data2_def)
    have here: "pixelAt data2 k = (if alphaAt xs k \<noteq> 0 then (255, 255, 255, 255) else (0, 0, 0, 255))"
      using True less.prems
      by (simp add: pixelAt_def data2_def v_def)
    have herep: "pixelAt (paintMask xs (4 * Suc k) data2) k = pixelAt data2 k"
      using ih by (simp add: pixelAt_def)
    show ?thesis
      unfolding step
    proof (intro conjI allI impI)
      show "length (paintMask xs (4 * Suc k) data2) = 4 * n" using ih by simp
    next
      fix j assume "j < 4 * k"
      then show "paintMask xs (4 * Suc k) data2 ! j = data ! j"
        using ih old by simp
    next
      fix p assume p: "k \<le> p \<and> p < n"
      show "pixelAt (paintMask xs (4 * Suc k) data2) p = (if alphaAt xs p \<noteq> 0 then (255, 255, 255, 255) else (0, 0, 0, 255))"
      proof (cases "p = k")
        case True
        then show ?thesis using here herep by simp
      next
        case False
        with p have "Suc k \<le> p \<and> p < n" by simp
        then show ?thesis using ih by blast
      qed
    qed
  qed
qed


lemma pixels_two_valued:
  assumes len: "length ys = 4 * n"
    and px: "\<forall>p<n. pixelAt ys p = (255, 255, 255, 255) \<or> pixelAt ys p = (0, 0, 0, 255)"
  shows "set ys \<subseteq> {0, 255}"
proof
  fix y assume "y \<in> set ys"
  then obtain i where i: "i < length ys" "ys ! i = y" by (auto simp: in_set_conv_nth)
  define p where "p = i div 4"
  define r where "r = i mod 4"
  have p: "p < n" using i len by (simp add: p_def)
  have idx: "i = 4 * p + r" by (simp add: p_def r_def)
  have "r < 4" by (simp add: r_def)
  then consider "r = 0" | "r = 1" | "r = 2" | "r = 3" by linarith
  then have "ys ! i = fst (pixelAt ys p) \<or> ys ! i = fst (snd (pixelAt ys p))
             \<or> ys ! i = fst (snd (snd (pixelAt ys p))) \<or> ys ! i = snd (snd (snd (pixelAt ys p)))"
    by cases (simp_all add: idx pixelAt_def)
  with px p i show "y \<in> {0, 255}" by auto
qed

text \<open>
  C2. For a canvas whose buffer has four bytes per pixel and whose contexts are
  available: when every pixel has alpha 0 the derivation returns nothing; otherwise it
  returns the encoding of a bitmap of the same width and height in which each pixel
  with alpha above 0 in the source is (255, 255, 255, 255) and each pixel with alpha 0
  is (0, 0, 0, 255), so that no byte of the bitmap is other than 0 or 255.
\<close>

theorem binary_mask_is_strict:
  "length (pixels c) = 4 * width c * height c \<longrightarrow> context2d c \<longrightarrow> maskContext \<longrightarrow>
     (if \<forall>p < width c * height c. alphaAt (pixels c) p = 0
      then binaryMask maskContext (Some c) = None
           \<and> getMaskAsImageFile encodePng maskContext (Some c) = None
      else \<exists>m. binaryMask maskContext (Some c) = Some m
             \<and> getMaskAsImageFile encodePng maskContext (Some c)
                 = Some \<lparr>base64 = encodePng m, mimeType = ''image/png'', name = ''mask.png''\<rparr>
             \<and> width m = width c \<and> height m = height c
             \<and> length (pixels m) = 4 * width c * height c
             \<and> (\<forall>p < width c * height c.
                   pixelAt (pixels m) p
                     = (if 0 < alphaAt (pixels c) p then (255, 255, 255, 255) else (0, 0, 0, 255)))
             \<and> set (pixels m) \<subseteq> {0, 255})"
proof (intro impI)
  assume len: "length (pixels c) = 4 * width c * height c"
    and ctx: "context2d c" and mctx: "maskContext"
  define n where "n = width c * height c"
  have len': "length (pixels c) = 4 * n" using len by (simp add: n_def mult.assoc)
  have empty: "isMaskEmpty (pixels c) 3 = (\<forall>p<n. alphaAt (pixels c) p = 0)"
    using isMaskEmpty_iff [of "pixels c" 0] len' by auto
  show "if \<forall>p < width c * height c. alphaAt (pixels c) p = 0
      then binaryMask maskContext (Some c) = None
           \<and> getMaskAsImageFile encodePng maskContext (Some c) = None
      else \<exists>m. binaryMask maskContext (Some c) = Some m
             \<and> getMaskAsImageFile encodePng maskContext (Some c)
                 = Some \<lparr>base64 = encodePng m, mimeType = ''image/png'', name = ''mask.png''\<rparr>
             \<and> width m = width c \<and> height m = height c
             \<and> length (pixels m) = 4 * width c * height c
             \<and> (\<forall>p < width c * height c.
                   pixelAt (pixels m) p
                     = (if 0 < alphaAt (pixels c) p then (255, 255, 255, 255) else (0, 0, 0, 255)))
             \<and> set (pixels m) \<subseteq> {0, 255}"
  proof (cases "\<forall>p<n. alphaAt (pixels c) p = 0")
    case True
    then have "binaryMask maskContext (Some c) = None"
      using empty by (simp add: binaryMask_def Let_def)
    with True show ?thesis by (simp add: getMaskAsImageFile_def n_def)
  next
    case False
    then have pos: "0 < n" by (cases n) auto
    then have dims: "width c \<noteq> 0" "height c \<noteq> 0" by (auto simp: n_def)
    define out where "out = paintMask (pixels c) 0 (replicate (4 * n) 0)"
    define m where "m = \<lparr>width = width c, height = height c, pixels = out, context2d = True\<rparr>"
    have bm: "binaryMask maskContext (Some c) = Some m"
      using False empty dims ctx mctx
      by (simp add: binaryMask_def Let_def m_def out_def n_def mult.assoc)
    have spec: "length out = 4 * n
         \<and> (\<forall>p. 0 \<le> p \<and> p < n \<longrightarrow>
               pixelAt out p = (if alphaAt (pixels c) p \<noteq> 0 then (255, 255, 255, 255) else (0, 0, 0, 255)))"
      using paintMask_spec [of "pixels c" n "replicate (4 * n) 0" 0] len'
      by (simp add: out_def)
    have px: "\<forall>p<n. pixelAt out p
                = (if 0 < alphaAt (pixels c) p then (255, 255, 255, 255) else (0, 0, 0, 255))"
      using spec by (simp add: word_gt_0)
    have "\<forall>p<n. pixelAt out p = (255, 255, 255, 255) \<or> pixelAt out p = (0, 0, 0, 255)"
      using px by simp
    with spec have two: "set out \<subseteq> {0, 255}"
      by (intro pixels_two_valued [of out n]) simp_all
    have "\<not> (\<forall>p < width c * height c. alphaAt (pixels c) p = 0)"
      using False by (simp add: n_def)
    moreover have "binaryMask maskContext (Some c) = Some m
             \<and> getMaskAsImageFile encodePng maskContext (Some c)
                 = Some \<lparr>base64 = encodePng m, mimeType = ''image/png'', name = ''mask.png''\<rparr>
             \<and> width m = width c \<and> height m = height c
             \<and> length (pixels m) = 4 * width c * height c
             \<and> (\<forall>p < width c * height c.
                   pixelAt (pixels m) p
                     = (if 0 < alphaAt (pixels c) p then (255, 255, 255, 255) else (0, 0, 0, 255)))
             \<and> set (pixels m) \<subseteq> {0, 255}"
      using bm spec px two by (simp add: getMaskAsImageFile_def m_def n_def mult.assoc)
    ultimately show ?thesis by (simp only: if_False) blast
  qed
qed

theorem binary_mask_is_strict_witness:
  "length (pixels strokeCanvas) = 4 * width strokeCanvas * height strokeCanvas
   \<and> context2d strokeCanvas
   \<and> alphaAt (pixels strokeCanvas) 0 = 179 \<and> alphaAt (pixels strokeCanvas) 1 = 0
   \<and> (\<exists>m. binaryMask True (Some strokeCanvas) = Some m
          \<and> width m = 2 \<and> height m = 2
          \<and> pixelAt (pixels m) 0 = (255, 255, 255, 255)
          \<and> pixelAt (pixels m) 1 = (0, 0, 0, 255)
          \<and> set (pixels m) \<subseteq> {0, 255})
   \<and> binaryMask True (clearMask (Some strokeCanvas)) = None"
proof -
  have len: "length (pixels strokeCanvas) = 4 * width strokeCanvas * height strokeCanvas"
    and ctx: "context2d strokeCanvas"
    and a0: "alphaAt (pixels strokeCanvas) 0 = 179"
    and a1: "alphaAt (pixels strokeCanvas) 1 = 0"
    and dims: "width strokeCanvas = 2" "height strokeCanvas = 2"
    by (simp_all add: strokeCanvas_def alphaAt_def)
  from a0 have covered:
    "\<not> (\<forall>p < width strokeCanvas * height strokeCanvas. alphaAt (pixels strokeCanvas) p = 0)"
    by (auto simp add: dims intro!: exI [of _ 0])
  from binary_mask_is_strict [of strokeCanvas True "\<lambda>c. []"] len ctx covered
  obtain m where m: "binaryMask True (Some strokeCanvas) = Some m"
      "width m = width strokeCanvas" "height m = height strokeCanvas"
      "\<forall>p < width strokeCanvas * height strokeCanvas.
         pixelAt (pixels m) p
           = (if 0 < alphaAt (pixels strokeCanvas) p then (255, 255, 255, 255) else (0, 0, 0, 255))"
      "set (pixels m) \<subseteq> {0, 255}"
    by auto
  from m(4) have "pixelAt (pixels m) 0 = (255, 255, 255, 255)" "pixelAt (pixels m) 1 = (0, 0, 0, 255)"
    using a0 a1 by (simp_all add: dims)
  with m have stroke: "\<exists>m. binaryMask True (Some strokeCanvas) = Some m
          \<and> width m = 2 \<and> height m = 2
          \<and> pixelAt (pixels m) 0 = (255, 255, 255, 255)
          \<and> pixelAt (pixels m) 1 = (0, 0, 0, 255)
          \<and> set (pixels m) \<subseteq> {0, 255}"
    by (simp add: dims)
  define cleared where "cleared = strokeCanvas\<lparr>pixels := replicate 16 0\<rparr>"
  have cl: "clearMask (Some strokeCanvas) = Some cleared"
    by (simp add: clearMask_def cleared_def strokeCanvas_def)
  have "\<forall>p < width cleared * height cleared. alphaAt (pixels cleared) p = 0"
    by (simp add: cleared_def strokeCanvas_def alphaAt_def)
  with binary_mask_is_strict [of cleared True "\<lambda>c. []"]
  have "binaryMask True (Some cleared) = None"
    by (simp add: cleared_def strokeCanvas_def)
  with len ctx a0 a1 stroke cl show ?thesis by simp
qed


end
